theory Spec2Isabelle
  imports Complex_Main "HOL-Library.Char_ord" "HOL-Library.List_Lexorder"
begin

section \<open>Errors\<close>

text \<open>
  Every \<^verbatim>\<open>raise\<close> of \<^verbatim>\<open>t5/data/utils.py\<close> is a value of this type. The source raises
  \<^verbatim>\<open>ValueError\<close> with different messages; the constructors keep the messages apart and
  carry the names the specification gives them. \<open>UnexpectedEosError\<close> is the failure of
  the \<^verbatim>\<open>tf.assert_none_equal\<close> placed by \<^verbatim>\<open>_ensure_no_eos\<close>; \<open>KeyError\<close>,
  \<open>IndexError\<close>, \<open>TypeError\<close>, \<open>ZeroDivisionError\<close> and \<open>OverflowError\<close> are the exceptions of the Python
  operations the source uses.
\<close>

datatype schema_violation = MissingFeature | IncorrectType | IncorrectRank

datatype error =
    InvalidName
  | MissingVersion
  | DuplicateRegistration
  | InvalidProviderType
  | NotFound
  | SchemaError schema_violation string string
  | UnexpectedEosError string string
  | MissingRate
  | IncompatibleMixtureError
  | KeyError
  | IndexError
  | TypeError
  | ZeroDivisionError
  | OverflowError

section \<open>Task names\<close>

text \<open>
  \<^verbatim>\<open>_VALID_TASK_NAME_REGEX = re.compile(r"^[\w\d\._]+$")\<close>, used as
  \<^verbatim>\<open>_VALID_TASK_NAME_REGEX.match(name)\<close>. Names are byte strings: \<^verbatim>\<open>\w\<close> is
  \<^verbatim>\<open>[a-zA-Z0-9_]\<close> and \<^verbatim>\<open>\d\<close> is \<^verbatim>\<open>[0-9]\<close>. (On Python 3 text strings
  \<^verbatim>\<open>\w\<close> matches letters and digits beyond ASCII as well; those names are outside
  this model.)
\<close>

definition is_digit :: "char \<Rightarrow> bool" where
  "is_digit c = (let n = (of_char c :: nat) in 48 \<le> n \<and> n \<le> 57)"

definition is_word :: "char \<Rightarrow> bool" where
  "is_word c = (let n = (of_char c :: nat) in
     (48 \<le> n \<and> n \<le> 57) \<or> (65 \<le> n \<and> n \<le> 90) \<or> (97 \<le> n \<and> n \<le> 122) \<or> n = 95)"

text \<open>The character class \<^verbatim>\<open>[\w\d\._]\<close>.\<close>

definition name_class :: "char \<Rightarrow> bool" where
  "name_class c = (is_word c \<or> is_digit c \<or> c = CHR ''.'' \<or> c = CHR ''_'')"

text \<open>
  Python's \<^verbatim>\<open>$\<close> (no \<^verbatim>\<open>MULTILINE\<close> flag) holds at the end of the string and
  also just before a newline that is the last character of the string.
\<close>

definition at_dollar :: "string \<Rightarrow> bool" where
  "at_dollar rest = (rest = [] \<or> rest = [CHR 0x0A])"

text \<open>
  \<^verbatim>\<open>match\<close> anchors at the start only: the pattern matches when some non-empty prefix
  consists of class characters and \<^verbatim>\<open>$\<close> holds where that prefix ends.
\<close>

definition VALID_TASK_NAME_REGEX_match :: "string \<Rightarrow> bool" where
  "VALID_TASK_NAME_REGEX_match name =
     list_ex (\<lambda>n. list_all name_class (take n name) \<and> at_dollar (drop n name))
       [1 ..< Suc (length name)]"

section \<open>Tensors and datasets\<close>

text \<open>
  The tensor runtime is a collaborator; the model keeps what the source inspects. A value
  is a one-dimensional \<^verbatim>\<open>tf.int64\<close> tensor (a token sequence), a scalar
  \<^verbatim>\<open>tf.string\<close> tensor, or a tensor of some other dtype and rank whose contents the
  source never reads.
\<close>

datatype dtype = DT_STRING | DT_INT64 | DT_INT32 | DT_FLOAT

datatype tensor =
    Int64Vector "int list"
  | StringScalar string
  | OtherTensor dtype nat

text \<open>An example is a Python dict from feature name to tensor, in insertion order.\<close>

type_synonym example = "(string \<times> tensor) list"

text \<open>
  A \<^verbatim>\<open>tf.data.Dataset\<close>: the static structure that \<^verbatim>\<open>tf.data.get_output_types\<close>
  and \<^verbatim>\<open>tf.data.get_output_shapes\<close> report (a shape is a list of dimensions, unknown
  ones \<open>None\<close>), and the elements it yields when iterated. An element is \<open>Inl e\<close> when
  producing it fails at run time.
\<close>

record dataset =
  output_types :: "(string \<times> dtype) list"
  output_shapes :: "(string \<times> nat option list) list"
  elements :: "(error + example) list"

text \<open>The runtime's guarantee that a value has the dtype and shape of the static structure.\<close>

fun tensor_matches :: "tensor \<Rightarrow> dtype \<Rightarrow> nat option list \<Rightarrow> bool" where
  "tensor_matches (Int64Vector xs) d sh = (d = DT_INT64 \<and> length sh = 1)"
| "tensor_matches (StringScalar s) d sh = (d = DT_STRING \<and> sh = [])"
| "tensor_matches (OtherTensor d' r) d sh =
     (d = d' \<and> length sh = r \<and> \<not> (d = DT_INT64 \<and> r = 1) \<and> \<not> (d = DT_STRING \<and> r = 0))"

definition entry_conforms :: "dataset \<Rightarrow> string \<times> tensor \<Rightarrow> bool" where
  "entry_conforms ds kv =
     (case (map_of (output_types ds) (fst kv), map_of (output_shapes ds) (fst kv)) of
        (Some d, Some sh) \<Rightarrow> tensor_matches (snd kv) d sh
      | _ \<Rightarrow> False)"

definition conforms :: "dataset \<Rightarrow> bool" where
  "conforms ds =
     list_all (\<lambda>r. case r of Inl e \<Rightarrow> True | Inr ex \<Rightarrow> list_all (entry_conforms ds) ex)
       (elements ds)"

text \<open>
  The dict comprehension \<^verbatim>\<open>{k: f(k, v) for k, v in ex.items()}\<close>: keys and order are
  kept, and the first \<open>f\<close> that fails makes the whole comprehension fail.
\<close>

fun dict_comprehension ::
  "(string \<Rightarrow> tensor \<Rightarrow> error + tensor) \<Rightarrow> example \<Rightarrow> error + example" where
  "dict_comprehension f [] = Inr []"
| "dict_comprehension f ((k, v) # ex) =
     (case f k v of
        Inl e \<Rightarrow> Inl e
      | Inr v' \<Rightarrow> (case dict_comprehension f ex of
                    Inl e \<Rightarrow> Inl e
                  | Inr ex' \<Rightarrow> Inr ((k, v') # ex')))"

text \<open>
  \<^verbatim>\<open>dataset.map(fn)\<close> for a function that keeps every feature's dtype and rank, as both
  functions mapped by the source do: the static structure stays, each element that was
  produced is transformed, and a failure of \<open>fn\<close> is the failure of that element.
\<close>

definition dataset_map :: "(example \<Rightarrow> error + example) \<Rightarrow> dataset \<Rightarrow> dataset" where
  "dataset_map fn ds =
     ds\<lparr>elements := map (\<lambda>r. case r of Inl e \<Rightarrow> Inl e | Inr ex \<Rightarrow> fn ex) (elements ds)\<rparr>"

text \<open>
  Python's \<^verbatim>\<open>v[:k]\<close> on a sequence: a negative \<open>k\<close> counts from the end, and both
  cases are clamped to the sequence.
\<close>

definition py_slice_upto :: "'a list \<Rightarrow> int \<Rightarrow> 'a list" where
  "py_slice_upto v k =
     (if 0 \<le> k then take (nat k) v else take (nat (int (length v) + k)) v)"

section \<open>LazyTfdsLoader\<close>

text \<open>
  Instances live in an object store addressed by position; \<^verbatim>\<open>_MEMOIZED_INSTANCES\<close> maps
  \<open>(name, data_dir)\<close> to the address of the instance. The builder is an opaque handle.
\<close>

record LazyTfdsLoader =
  loader_name :: "string option"
  loader_data_dir :: "string option"
  loader_builder :: "nat option"

type_synonym loader_key = "string \<times> string option"

record loaders =
  MEMOIZED_INSTANCES :: "loader_key \<rightharpoonup> nat"
  objects :: "LazyTfdsLoader list"

text \<open>\<^verbatim>\<open>object.__new__(cls)\<close>: a fresh instance without attributes.\<close>

definition object_new :: "LazyTfdsLoader" where
  "object_new = \<lparr>loader_name = None, loader_data_dir = None, loader_builder = None\<rparr>"

definition LazyTfdsLoader_new :: "string \<Rightarrow> string option \<Rightarrow> loaders \<Rightarrow> nat \<times> loaders" where
  "LazyTfdsLoader_new name data_dir s =
     (let key = (name, data_dir) in
      case MEMOIZED_INSTANCES s key of
        None \<Rightarrow>
          (let a = length (objects s) in
           (a, s\<lparr>MEMOIZED_INSTANCES := (MEMOIZED_INSTANCES s)(key \<mapsto> a),
                 objects := objects s @ [object_new]\<rparr>))
      | Some a \<Rightarrow> (a, s))"

definition LazyTfdsLoader_init :: "nat \<Rightarrow> string \<Rightarrow> string option \<Rightarrow> loaders \<Rightarrow> loaders" where
  "LazyTfdsLoader_init self name data_dir s =
     s\<lparr>objects := (objects s)[self :=
          \<lparr>loader_name = Some name, loader_data_dir = data_dir, loader_builder = None\<rparr>]\<rparr>"

text \<open>The call \<^verbatim>\<open>LazyTfdsLoader(name, data_dir)\<close>: \<^verbatim>\<open>__new__\<close>, then \<^verbatim>\<open>__init__\<close> on its result.\<close>

definition LazyTfdsLoader_call :: "string \<Rightarrow> string option \<Rightarrow> loaders \<Rightarrow> nat \<times> loaders" where
  "LazyTfdsLoader_call name data_dir s =
     (case LazyTfdsLoader_new name data_dir s of
        (self, s') \<Rightarrow> (self, LazyTfdsLoader_init self name data_dir s'))"

text \<open>
  The \<^verbatim>\<open>builder\<close> property stores the handle it obtained in \<^verbatim>\<open>self._builder\<close>; reading
  the attribute goes through the same store.
\<close>

definition set_builder :: "nat \<Rightarrow> nat \<Rightarrow> loaders \<Rightarrow> loaders" where
  "set_builder self b s =
     s\<lparr>objects := (objects s)[self := (objects s ! self)\<lparr>loader_builder := Some b\<rparr>]\<rparr>"

definition get_builder :: "nat \<Rightarrow> loaders \<Rightarrow> error + nat option" where
  "get_builder self s =
     (if self < length (objects s) then Inr (loader_builder (objects s ! self)) else Inl NotFound)"

text \<open>What a program does with loaders: construct one, or fill the builder of one it holds.\<close>

datatype loader_op = Construct string "string option" | FillBuilder nat nat

fun run_op :: "loader_op \<Rightarrow> loaders \<Rightarrow> loaders" where
  "run_op (Construct name data_dir) s = snd (LazyTfdsLoader_call name data_dir s)"
| "run_op (FillBuilder self b) s = set_builder self b s"

fun run_ops :: "loader_op list \<Rightarrow> loaders \<Rightarrow> loaders" where
  "run_ops [] s = s"
| "run_ops (x # xs) s = run_ops xs (run_op x s)"

section \<open>Tasks\<close>

text \<open>
  A preprocessor argument is one function or a list of functions
  (\<^verbatim>\<open>hasattr(preprocessors, "__iter__")\<close> tells them apart). A function receives the
  keyword arguments and the dataset, and may raise.
\<close>

datatype 'f preprocessors = OneFn 'f | FnList "'f list"

datatype vocabulary = SentencePieceVocabulary string

record token_kwargs =
  kw_sequence_length :: "string \<rightharpoonup> int"
  kw_vocabulary :: vocabulary

type_synonym text_fn = "unit \<Rightarrow> dataset \<Rightarrow> error + dataset"
type_synonym token_fn = "token_kwargs \<Rightarrow> dataset \<Rightarrow> error + dataset"

text \<open>
  The attributes of a \<^verbatim>\<open>Task\<close> that the operations below read. The metric functions
  and the postprocessing function are opaque callables that none of them touches;
  \<open>tfds_dataset\<close> is the address of the Task's \<^verbatim>\<open>LazyTfdsLoader\<close>.
\<close>

record task =
  name :: string
  tfds_dataset :: nat
  text_preprocessor :: "text_fn preprocessors"
  token_preprocessor :: "token_fn preprocessors"
  sentencepiece_model_path :: string
  output_features :: "string list"
  splits :: "string list option"

record task_kwargs =
  arg_tfds_name :: string
  arg_text_preprocessor :: "text_fn preprocessors option"
  arg_sentencepiece_model_path :: string
  arg_token_preprocessor :: "token_fn preprocessors option"
  arg_tfds_data_dir :: "string option"
  arg_output_features :: "string list option"
  arg_splits :: "string list option"

definition DEFAULT_FEATURE_KEYS :: "string list" where
  "DEFAULT_FEATURE_KEYS = [''inputs'', ''targets'']"

text \<open>\<^verbatim>\<open>output_features or _DEFAULT_FEATURE_KEYS\<close>: \<^verbatim>\<open>None\<close> and the empty list are falsy.\<close>

definition or_default :: "string list option \<Rightarrow> string list" where
  "or_default features =
     (case features of
        None \<Rightarrow> DEFAULT_FEATURE_KEYS
      | Some xs \<Rightarrow> if xs = [] then DEFAULT_FEATURE_KEYS else xs)"

text \<open>\<^verbatim>\<open>sorted(set(xs))\<close>.\<close>

definition sorted_set :: "string list \<Rightarrow> string list" where
  "sorted_set xs = sorted_list_of_set (set xs)"

definition Task_init :: "string \<Rightarrow> task_kwargs \<Rightarrow> loaders \<Rightarrow> (error + task) \<times> loaders" where
  "Task_init name' kw s =
     (if \<not> VALID_TASK_NAME_REGEX_match name' then (Inl InvalidName, s)
      else if CHR '':'' \<notin> set (arg_tfds_name kw) then (Inl MissingVersion, s)
      else
        (case LazyTfdsLoader_call (arg_tfds_name kw) (arg_tfds_data_dir kw) s of
           (tfds, s') \<Rightarrow>
             (Inr \<lparr>name = name',
                   tfds_dataset = tfds,
                   text_preprocessor =
                     (case arg_text_preprocessor kw of None \<Rightarrow> FnList [] | Some p \<Rightarrow> p),
                   token_preprocessor =
                     (case arg_token_preprocessor kw of None \<Rightarrow> FnList [] | Some p \<Rightarrow> p),
                   sentencepiece_model_path = arg_sentencepiece_model_path kw,
                   output_features = sorted_set (or_default (arg_output_features kw)),
                   splits = arg_splits kw\<rparr>,
              s')))"

definition get_vocabulary :: "task \<Rightarrow> vocabulary" where
  "get_vocabulary t = SentencePieceVocabulary (sentencepiece_model_path t)"

subsection \<open>The preprocessing pipeline\<close>

fun apply_preprocessors ::
  "('k \<Rightarrow> dataset \<Rightarrow> error + dataset) list \<Rightarrow> 'k \<Rightarrow> dataset \<Rightarrow> error + dataset" where
  "apply_preprocessors [] kw ds = Inr ds"
| "apply_preprocessors (prep_fn # fs) kw ds =
     (case prep_fn kw ds of Inl e \<Rightarrow> Inl e | Inr ds' \<Rightarrow> apply_preprocessors fs kw ds')"

definition Task_preprocess_dataset ::
  "dataset \<Rightarrow> ('k \<Rightarrow> dataset \<Rightarrow> error + dataset) preprocessors \<Rightarrow> 'k \<Rightarrow> error + dataset" where
  "Task_preprocess_dataset ds preps kw =
     apply_preprocessors (case preps of OneFn f \<Rightarrow> [f] | FnList fs \<Rightarrow> fs) kw ds"

text \<open>The loop of \<^verbatim>\<open>_validate_dataset\<close> over the output features; the first violation is raised.\<close>

fun check_features ::
  "dataset \<Rightarrow> dtype \<Rightarrow> nat \<Rightarrow> string \<Rightarrow> string list \<Rightarrow> error option" where
  "check_features ds expected_output_type expected_output_rank error_label [] = None"
| "check_features ds expected_output_type expected_output_rank error_label (feat # feats) =
     (case map_of (output_types ds) feat of
        None \<Rightarrow> Some (SchemaError MissingFeature feat error_label)
      | Some ty \<Rightarrow>
          if expected_output_type \<noteq> ty then Some (SchemaError IncorrectType feat error_label)
          else
            (case map_of (output_shapes ds) feat of
               None \<Rightarrow> Some KeyError
             | Some sh \<Rightarrow>
                 if expected_output_rank \<noteq> length sh
                 then Some (SchemaError IncorrectRank feat error_label)
                 else check_features ds expected_output_type expected_output_rank
                        error_label feats))"

text \<open>
  \<^verbatim>\<open>_ensure_no_eos\<close>: the assertion \<^verbatim>\<open>tf.assert_none_equal(v, tf.constant(1, tf.int64))\<close>
  guards the value that is returned. Comparing a tensor that is not \<^verbatim>\<open>tf.int64\<close>
  with the constant is a type error; validation has excluded it for output features.
\<close>

definition ensure_no_eos :: "task \<Rightarrow> string \<Rightarrow> string \<Rightarrow> tensor \<Rightarrow> error + tensor" where
  "ensure_no_eos self error_label feat v =
     (if feat \<notin> set (output_features self) then Inr v
      else (case v of
              Int64Vector xs \<Rightarrow>
                if 1 \<in> set xs then Inl (UnexpectedEosError feat error_label) else Inr v
            | _ \<Rightarrow> Inl TypeError))"

definition Task_validate_dataset ::
  "task \<Rightarrow> dataset \<Rightarrow> dtype \<Rightarrow> nat \<Rightarrow> string \<Rightarrow> bool \<Rightarrow> error + dataset" where
  "Task_validate_dataset self ds expected_output_type expected_output_rank error_label
      no_eos =
     (case check_features ds expected_output_type expected_output_rank error_label
             (output_features self) of
        Some e \<Rightarrow> Inl e
      | None \<Rightarrow>
          Inr (if no_eos
               then dataset_map (dict_comprehension (ensure_no_eos self error_label)) ds
               else ds))"

definition Task_preprocess_text :: "task \<Rightarrow> dataset \<Rightarrow> error + dataset" where
  "Task_preprocess_text self ds =
     (case Task_preprocess_dataset ds (text_preprocessor self) () of
        Inl e \<Rightarrow> Inl e
      | Inr ds' \<Rightarrow> Task_validate_dataset self ds' DT_STRING 0 ''text preprocessing'' False)"

text \<open>
  \<^verbatim>\<open>_trim_and_append_eos\<close>:
  \<^verbatim>\<open>tf.concat([v[:sequence_length[feat]-1], [1]], axis=0)\<close>. The lengths are Python
  integers, so the bound of the slice can be negative.
\<close>

definition trim_and_append_eos ::
  "task \<Rightarrow> (string \<rightharpoonup> int) \<Rightarrow> string \<Rightarrow> tensor \<Rightarrow> error + tensor" where
  "trim_and_append_eos self sequence_length feat v =
     (if feat \<notin> set (output_features self) then Inr v
      else (case sequence_length feat of
              None \<Rightarrow> Inl KeyError
            | Some L \<Rightarrow>
                (case v of
                   Int64Vector xs \<Rightarrow> Inr (Int64Vector (py_slice_upto xs (L - 1) @ [1]))
                 | _ \<Rightarrow> Inl TypeError)))"

text \<open>The dataset that reaches validation: the output of the token preprocessors.\<close>

definition token_preprocessed :: "task \<Rightarrow> dataset \<Rightarrow> (string \<rightharpoonup> int) \<Rightarrow> error + dataset" where
  "token_preprocessed self ds sequence_length =
     Task_preprocess_dataset ds (token_preprocessor self)
       \<lparr>kw_sequence_length = sequence_length, kw_vocabulary = get_vocabulary self\<rparr>"

definition Task_preprocess_tokens ::
  "task \<Rightarrow> dataset \<Rightarrow> (string \<rightharpoonup> int) \<Rightarrow> error + dataset" where
  "Task_preprocess_tokens self ds sequence_length =
     (case token_preprocessed self ds sequence_length of
        Inl e \<Rightarrow> Inl e
      | Inr ds1 \<Rightarrow>
          (case Task_validate_dataset self ds1 DT_INT64 1 ''token preprocessing'' True of
             Inl e \<Rightarrow> Inl e
           | Inr ds2 \<Rightarrow>
               Inr (dataset_map
                      (dict_comprehension (trim_and_append_eos self sequence_length)) ds2)))"

section \<open>Registries\<close>

text \<open>
  \<^verbatim>\<open>DatasetProviderRegistry.add\<close>. The state is the registry dict together with whatever
  else the provider's constructor may change; \<open>provider_cls\<close> is the constructor already
  applied to its arguments, and \<open>is_provider_type\<close> is the \<^verbatim>\<open>isinstance\<close> test.
  A raise leaves the state as it was at that point.
\<close>

definition DatasetProviderRegistry_add ::
  "string \<Rightarrow> ('s \<Rightarrow> (error + 'p) \<times> 's) \<Rightarrow> ('p \<Rightarrow> bool) \<Rightarrow> (string \<rightharpoonup> 'p) \<times> 's
     \<Rightarrow> (error + unit) \<times> (string \<rightharpoonup> 'p) \<times> 's" where
  "DatasetProviderRegistry_add name' provider_cls is_provider_type st =
     (case st of (REGISTRY, s) \<Rightarrow>
        if REGISTRY name' \<noteq> None then (Inl DuplicateRegistration, REGISTRY, s)
        else
          (case provider_cls s of
             (Inl e, s') \<Rightarrow> (Inl e, REGISTRY, s')
           | (Inr provider, s') \<Rightarrow>
               if \<not> is_provider_type provider then (Inl InvalidProviderType, REGISTRY, s')
               else (Inr (), REGISTRY(name' \<mapsto> provider), s')))"

definition DatasetProviderRegistry_get :: "(string \<rightharpoonup> 'p) \<Rightarrow> string \<Rightarrow> error + 'p" where
  "DatasetProviderRegistry_get REGISTRY name' =
     (case REGISTRY name' of None \<Rightarrow> Inl NotFound | Some provider \<Rightarrow> Inr provider)"

text \<open>
  The process-wide state: the memoized loaders and \<^verbatim>\<open>TaskRegistry._REGISTRY\<close>.
  \<^verbatim>\<open>TaskRegistry.add(name, **kwargs)\<close> is the base \<^verbatim>\<open>add\<close> with \<^verbatim>\<open>Task\<close> as the
  provider class and the registration key as the Task's name; what \<^verbatim>\<open>Task\<close> constructs
  is a \<^verbatim>\<open>Task\<close>.
\<close>

record world =
  tfds_loaders :: loaders
  TaskRegistry :: "string \<rightharpoonup> task"

definition TaskRegistry_add :: "string \<Rightarrow> task_kwargs \<Rightarrow> world \<Rightarrow> (error + unit) \<times> world" where
  "TaskRegistry_add name' kwargs w =
     (case DatasetProviderRegistry_add name' (Task_init name' kwargs) (\<lambda>provider. True)
             (TaskRegistry w, tfds_loaders w) of
        (r, REGISTRY, s) \<Rightarrow> (r, w\<lparr>tfds_loaders := s, TaskRegistry := REGISTRY\<rparr>))"

definition TaskRegistry_get :: "string \<Rightarrow> world \<Rightarrow> error + task" where
  "TaskRegistry_get name' w = DatasetProviderRegistry_get (TaskRegistry w) name'"

section \<open>Mixtures\<close>

text \<open>A rate is a number or a function of the Task.\<close>

datatype rate = RateNumber real | RateFunction "task \<Rightarrow> real"

text \<open>An element of the \<^verbatim>\<open>tasks\<close> argument: a task name, or a pair of a name and a rate.\<close>

datatype task_arg = TaskName string | TaskWithRate string rate

record mixture =
  tasks :: "task list"
  task_to_rate :: "string \<rightharpoonup> rate"

fun Mixture_init_loop ::
  "(string \<rightharpoonup> task) \<Rightarrow> rate option \<Rightarrow> task_arg list \<Rightarrow> mixture \<Rightarrow> error + mixture" where
  "Mixture_init_loop REGISTRY default_rate [] self = Inr self"
| "Mixture_init_loop REGISTRY default_rate (t # ts) self =
     (case (case t of
              TaskName task_name \<Rightarrow>
                (case default_rate of
                   None \<Rightarrow> Inl MissingRate
                 | Some r \<Rightarrow> Inr (task_name, r))
            | TaskWithRate task_name r \<Rightarrow> Inr (task_name, r)) of
        Inl e \<Rightarrow> Inl e
      | Inr (task_name, r) \<Rightarrow>
          (case DatasetProviderRegistry_get REGISTRY task_name of
             Inl e \<Rightarrow> Inl e
           | Inr tk \<Rightarrow>
               Mixture_init_loop REGISTRY default_rate ts
                 (self\<lparr>tasks := tasks self @ [tk],
                        task_to_rate := (task_to_rate self)(task_name \<mapsto> r)\<rparr>)))"

definition Mixture_init ::
  "(string \<rightharpoonup> task) \<Rightarrow> task_arg list \<Rightarrow> rate option \<Rightarrow> error + mixture" where
  "Mixture_init REGISTRY tasks' default_rate =
     (case Mixture_init_loop REGISTRY default_rate tasks'
             \<lparr>tasks = [], task_to_rate = Map.empty\<rparr> of
        Inl e \<Rightarrow> Inl e
      | Inr self \<Rightarrow>
          if card (set (map output_features (tasks self))) \<noteq> 1
          then Inl IncompatibleMixtureError
          else if card (set (map sentencepiece_model_path (tasks self))) \<noteq> 1
          then Inl IncompatibleMixtureError
          else Inr self)"

text \<open>The accessors read \<^verbatim>\<open>self._tasks[0]\<close>, which raises on an empty list.\<close>

definition Mixture_output_features :: "mixture \<Rightarrow> error + string list" where
  "Mixture_output_features self =
     (case tasks self of [] \<Rightarrow> Inl IndexError | t # ts \<Rightarrow> Inr (output_features t))"

definition Mixture_sentencepiece_model_path :: "mixture \<Rightarrow> error + string" where
  "Mixture_sentencepiece_model_path self =
     (case tasks self of [] \<Rightarrow> Inl IndexError | t # ts \<Rightarrow> Inr (sentencepiece_model_path t))"

definition Mixture_get_rate :: "mixture \<Rightarrow> task \<Rightarrow> error + real" where
  "Mixture_get_rate self t =
     (case task_to_rate self (name t) of
        None \<Rightarrow> Inl KeyError
      | Some (RateNumber r) \<Rightarrow> Inr r
      | Some (RateFunction f) \<Rightarrow> Inr (f t))"

section \<open>Rate functions\<close>

text \<open>
  The arithmetic of \<^verbatim>\<open>rate_num_examples\<close> is Python 3 float arithmetic. A float is a
  finite value or an infinity; a finite value is idealised as a real number, so
  rounding is not modelled, and neither are the sign of zero and NaN, which finite
  arguments never produce here. What is modelled is the kind of every outcome: which
  operations raise, which overflow to an infinity, and where the result is complex.
\<close>

datatype pyfloat = Finite real | PosInf | NegInf

datatype number = FloatValue pyfloat | ComplexValue complex

text \<open>
  Magnitudes from \<open>2^1024 - 2^970\<close> on round beyond the largest finite double.
\<close>

definition FLOAT_OVERFLOW :: real where
  "FLOAT_OVERFLOW = 2 ^ 1024 - 2 ^ 970"

text \<open>The float that an operation returns when its exact result is \<open>r\<close>.\<close>

definition to_float :: "real \<Rightarrow> pyfloat" where
  "to_float r =
     (if FLOAT_OVERFLOW \<le> r then PosInf
      else if r \<le> - FLOAT_OVERFLOW then NegInf
      else Finite r)"

text \<open>
  Converting an \<^verbatim>\<open>int\<close> operand to a float raises \<^verbatim>\<open>OverflowError\<close> when the integer
  is too large.
\<close>

definition py_int_to_float :: "int \<Rightarrow> error + real" where
  "py_int_to_float n =
     (if FLOAT_OVERFLOW \<le> \<bar>real_of_int n\<bar> then Inl OverflowError else Inr (real_of_int n))"

text \<open>Float multiplication does not raise; it overflows to an infinity.\<close>

definition py_float_mul :: "real \<Rightarrow> real \<Rightarrow> pyfloat" where
  "py_float_mul x y = to_float (x * y)"

text \<open>Float division raises on a zero divisor and otherwise overflows like multiplication.\<close>

definition py_float_div :: "real \<Rightarrow> real \<Rightarrow> error + pyfloat" where
  "py_float_div x y = (if y = 0 then Inl ZeroDivisionError else Inr (to_float (x / y)))"

text \<open>\<^verbatim>\<open>min(ret, maximum)\<close>: the second argument is returned when it is smaller.\<close>

fun py_min :: "pyfloat \<Rightarrow> real \<Rightarrow> pyfloat" where
  "py_min (Finite r) m = (if m < r then Finite m else Finite r)"
| "py_min PosInf m = Finite m"
| "py_min NegInf m = NegInf"

definition is_odd_integer :: "real \<Rightarrow> bool" where
  "is_odd_integer w = (w = of_int \<lfloor>w\<rfloor> \<and> odd \<lfloor>w\<rfloor>)"

text \<open>
  \<^verbatim>\<open>x ** y\<close> for a finite base and a finite exponent that is not zero: zero to a
  negative power raises \<^verbatim>\<open>ZeroDivisionError\<close>; a negative base with an exponent that
  is not an integer gives the complex number of modulus \<open>|x|^y\<close> and argument
  \<open>\<pi>y\<close>; a result too large for a float raises \<^verbatim>\<open>OverflowError\<close>.
\<close>

definition finite_pow :: "real \<Rightarrow> real \<Rightarrow> error + number" where
  "finite_pow v w =
     (if v = 0 then (if w < 0 then Inl ZeroDivisionError else Inr (FloatValue (Finite 0)))
      else if v < 0 \<and> w \<noteq> of_int \<lfloor>w\<rfloor> then
        (let len = \<bar>v\<bar> powr w in
         if FLOAT_OVERFLOW \<le> len then Inl OverflowError
         else Inr (ComplexValue (Complex (len * cos (pi * w)) (len * sin (pi * w)))))
      else
        (let r = (if v < 0 then power_int v \<lfloor>w\<rfloor> else v powr w) in
         if FLOAT_OVERFLOW \<le> \<bar>r\<bar> then Inl OverflowError
         else Inr (FloatValue (Finite r))))"

text \<open>
  \<^verbatim>\<open>x ** y\<close> on floats, in the order of the interpreter's case analysis: a zero
  exponent gives one; an infinite exponent gives one, an infinity or zero by comparing
  \<open>|x|\<close> with one; an infinite base gives an infinity for a positive exponent (negative
  for \<open>-inf\<close> to an odd integer) and zero for a negative one.
\<close>

fun py_float_pow :: "pyfloat \<Rightarrow> pyfloat \<Rightarrow> error + number" where
  "py_float_pow x (Finite w) =
     (if w = 0 then Inr (FloatValue (Finite 1))
      else (case x of
              Finite v \<Rightarrow> finite_pow v w
            | PosInf \<Rightarrow> Inr (FloatValue (if 0 < w then PosInf else Finite 0))
            | NegInf \<Rightarrow>
                Inr (FloatValue
                  (if 0 < w then (if is_odd_integer w then NegInf else PosInf)
                   else Finite 0))))"
| "py_float_pow x PosInf =
     Inr (FloatValue
       (case x of
          Finite v \<Rightarrow> if \<bar>v\<bar> = 1 then Finite 1 else if 1 < \<bar>v\<bar> then PosInf else Finite 0
        | PosInf \<Rightarrow> PosInf
        | NegInf \<Rightarrow> PosInf))"
| "py_float_pow x NegInf =
     Inr (FloatValue
       (case x of
          Finite v \<Rightarrow> if \<bar>v\<bar> = 1 then Finite 1 else if 1 < \<bar>v\<bar> then Finite 0 else PosInf
        | PosInf \<Rightarrow> Finite 0
        | NegInf \<Rightarrow> Finite 0))"

text \<open>
  \<^verbatim>\<open>rate_num_examples\<close>. \<open>stats\<close> is the dict that
  \<^verbatim>\<open>task.get_cached_stats("train")\<close> returned (loading it from the cache directory is
  the storage layer's part); the example count in it is an \<^verbatim>\<open>int\<close>, and \<open>scale\<close>,
  \<open>maximum\<close> and \<open>temperature\<close> are finite floats. \<^verbatim>\<open>if maximum:\<close> is Python
  truthiness: \<^verbatim>\<open>None\<close> and zero are falsy.
\<close>

definition rate_num_examples ::
  "(string \<rightharpoonup> int) \<Rightarrow> real option \<Rightarrow> real \<Rightarrow> real \<Rightarrow> error + number" where
  "rate_num_examples stats maximum temperature scale =
     (case stats ''examples'' of
        None \<Rightarrow> Inl KeyError
      | Some examples \<Rightarrow>
          (case py_int_to_float examples of
             Inl e \<Rightarrow> Inl e
           | Inr x \<Rightarrow>
               (let ret = py_float_mul x scale;
                    ret = (case maximum of
                             None \<Rightarrow> ret
                           | Some m \<Rightarrow> if m \<noteq> 0 then py_min ret m else ret)
                in if temperature \<noteq> 1
                   then (case py_float_div 1 temperature of
                           Inl e \<Rightarrow> Inl e
                         | Inr y \<Rightarrow> py_float_pow ret y)
                   else Inr (FloatValue ret))))"

definition rate_unsupervised :: "task \<Rightarrow> real \<Rightarrow> real" where
  "rate_unsupervised t v = v"

section \<open>The specification's reading of a valid Task name\<close>

text \<open>
  The specification's words: a non-empty string all of whose characters are ASCII
  letters, digits, underscore or dot.
\<close>

definition spec_name_char :: "char \<Rightarrow> bool" where
  "spec_name_char c = (let n = (of_char c :: nat) in
     (65 \<le> n \<and> n \<le> 90) \<or> (97 \<le> n \<and> n \<le> 122) \<or> (48 \<le> n \<and> n \<le> 57)
     \<or> c = CHR ''_'' \<or> c = CHR ''.'')"

definition spec_valid_task_name :: "string \<Rightarrow> bool" where
  "spec_valid_task_name s = (s \<noteq> [] \<and> list_all spec_name_char s)"

section \<open>Sample values\<close>

definition no_loaders :: loaders where
  "no_loaders = \<lparr>MEMOIZED_INSTANCES = Map.empty, objects = []\<rparr>"

definition sample_kwargs :: task_kwargs where
  "sample_kwargs =
     \<lparr>arg_tfds_name = ''glue/cola:1.0.0'',
      arg_text_preprocessor = None,
      arg_sentencepiece_model_path = ''sentencepiece.model'',
      arg_token_preprocessor = None,
      arg_tfds_data_dir = None,
      arg_output_features = None,
      arg_splits = None\<rparr>"

definition sample_loaders :: loaders where
  "sample_loaders =
     \<lparr>MEMOIZED_INSTANCES = [(''glue/cola:1.0.0'', None) \<mapsto> 0],
      objects = [\<lparr>loader_name = Some ''glue/cola:1.0.0'', loader_data_dir = None,
                  loader_builder = None\<rparr>]\<rparr>"

definition sample_task :: "string \<Rightarrow> task" where
  "sample_task n =
     \<lparr>name = n,
      tfds_dataset = 0,
      text_preprocessor = FnList [],
      token_preprocessor = FnList [],
      sentencepiece_model_path = ''sentencepiece.model'',
      output_features = [''inputs'', ''targets''],
      splits = None\<rparr>"

definition sample_example :: "int list \<Rightarrow> int list \<Rightarrow> example" where
  "sample_example xs ys =
     [(''inputs'', Int64Vector xs),
      (''targets'', Int64Vector ys),
      (''inputs_plaintext'', StringScalar ''a sentence''),
      (''idx'', Int64Vector [1])]"

definition sample_dataset :: "(error + example) list \<Rightarrow> dataset" where
  "sample_dataset es =
     \<lparr>output_types =
        [(''inputs'', DT_INT64), (''targets'', DT_INT64),
         (''inputs_plaintext'', DT_STRING), (''idx'', DT_INT64)],
      output_shapes =
        [(''inputs'', [None]), (''targets'', [None]),
         (''inputs_plaintext'', []), (''idx'', [Some 1])],
      elements = es\<rparr>"

definition sample_world0 :: world where
  "sample_world0 = \<lparr>tfds_loaders = no_loaders, TaskRegistry = Map.empty\<rparr>"

definition sample_world1 :: world where
  "sample_world1 =
     \<lparr>tfds_loaders = sample_loaders, TaskRegistry = [''cola'' \<mapsto> sample_task ''cola'']\<rparr>"

definition sample_registry :: "string \<rightharpoonup> task" where
  "sample_registry =
     [''cola'' \<mapsto> sample_task ''cola'',
      ''sst2'' \<mapsto> sample_task ''sst2'',
      ''lm'' \<mapsto> (sample_task ''lm'')\<lparr>output_features := [''targets'']\<rparr>]"

definition sample_mixture :: mixture where
  "sample_mixture =
     \<lparr>tasks = [sample_task ''cola'', sample_task ''sst2''],
      task_to_rate = [''cola'' \<mapsto> RateNumber 1, ''sst2'' \<mapsto> RateNumber 2]\<rparr>"

definition sample_mixture_lm :: mixture where
  "sample_mixture_lm =
     \<lparr>tasks = [sample_task ''cola'', (sample_task ''lm'')\<lparr>output_features := [''targets'']\<rparr>],
      task_to_rate = [''cola'' \<mapsto> RateNumber 1, ''lm'' \<mapsto> RateNumber 1]\<rparr>"

section \<open>The invariant of the loader store\<close>

text \<open>Every memoized address is the address of an instance in the store.\<close>

definition memo_in_range :: "loaders \<Rightarrow> bool" where
  "memo_in_range s = (\<forall>k b. MEMOIZED_INSTANCES s k = Some b \<longrightarrow> b < length (objects s))"

section \<open>Properties of the preprocessing pipeline\<close>

lemma dict_comprehension_Inr:
  "dict_comprehension f ex = Inr ex' \<Longrightarrow>
     list_all2 (\<lambda>kv kv'. fst kv' = fst kv \<and> f (fst kv) (snd kv) = Inr (snd kv')) ex ex'"
proof (induction ex arbitrary: ex')
  case Nil
  then show ?case by simp
next
  case (Cons a ex)
  obtain k v where a: "a = (k, v)" by (cases a)
  from Cons.prems obtain v' ex'' where
    "f k v = Inr v'" "dict_comprehension f ex = Inr ex''" "ex' = (k, v') # ex''"
    by (auto simp: a split: sum.splits)
  with Cons.IH[of ex''] show ?case by (simp add: a)
qed

lemma dict_comprehension_Inl:
  "dict_comprehension f ex = Inl e \<Longrightarrow> \<exists>kv \<in> set ex. f (fst kv) (snd kv) = Inl e"
  by (induction ex) (auto split: sum.splits)

lemma dict_comprehension_first_failure:
  assumes "kv \<in> set ex" and "f (fst kv) (snd kv) = Inl e"
  shows "\<exists>kv' \<in> set ex. \<exists>e'. f (fst kv') (snd kv') = Inl e' \<and> dict_comprehension f ex = Inl e'"
  using assms
proof (induction ex)
  case Nil
  then show ?case by simp
next
  case (Cons a ex)
  obtain k v where a: "a = (k, v)" by (cases a)
  show ?case
  proof (cases "f k v")
    case (Inl e')
    then show ?thesis by (auto simp: a)
  next
    case (Inr v')
    with Cons.prems a have "kv \<in> set ex" by auto
    from Cons.IH[OF this Cons.prems(2)] obtain kv' e' where
      "kv' \<in> set ex" "f (fst kv') (snd kv') = Inl e'" "dict_comprehension f ex = Inl e'"
      by blast
    then show ?thesis using Inr by (auto simp: a)
  qed
qed

lemma dict_comprehension_unchanged:
  "(\<And>kv. kv \<in> set ex \<Longrightarrow> f (fst kv) (snd kv) = Inr (snd kv)) \<Longrightarrow> dict_comprehension f ex = Inr ex"
  by (induction ex) auto

lemma check_features_None:
  assumes "check_features ds ty rk lbl feats = None" and "feat \<in> set feats"
  shows "map_of (output_types ds) feat = Some ty \<and>
         (\<exists>sh. map_of (output_shapes ds) feat = Some sh \<and> length sh = rk)"
  using assms
  by (induction feats) (auto split: option.splits if_splits)

lemma tensor_matches_int64_rank1:
  "tensor_matches v DT_INT64 sh \<Longrightarrow> length sh = 1 \<Longrightarrow> \<exists>xs. v = Int64Vector xs"
  by (cases v) auto

lemma py_slice_upto_length:
  "0 \<le> k \<Longrightarrow> int (length (py_slice_upto v k)) = min k (int (length v))"
  by (auto simp: py_slice_upto_def)


lemma ensure_no_eos_Inr:
  assumes "ensure_no_eos self lbl k v = Inr v'"
  shows "v' = v"
    and "k \<in> set (output_features self) \<Longrightarrow> \<exists>xs. v = Int64Vector xs \<and> 1 \<notin> set xs"
  using assms
  by (auto simp: ensure_no_eos_def split: if_splits tensor.splits)

lemma dict_ensure_no_eos_Inr:
  assumes "dict_comprehension (ensure_no_eos self lbl) ex = Inr ex2"
  shows "ex2 = ex"
proof -
  have "list_all2 (\<lambda>kv kv'. fst kv' = fst kv \<and>
          ensure_no_eos self lbl (fst kv) (snd kv) = Inr (snd kv')) ex ex2"
    using assms by (rule dict_comprehension_Inr)
  then have "list_all2 (=) ex ex2"
    by (rule list_all2_mono) (auto simp: prod_eq_iff dest: ensure_no_eos_Inr(1))
  then have "ex = ex2" by (simp only: list_all2_eq)
  then show ?thesis by simp
qed

lemma trim_and_append_eos_Inr:
  assumes "trim_and_append_eos self sl k v = Inr v'"
  shows "k \<notin> set (output_features self) \<Longrightarrow> v' = v"
    and "k \<in> set (output_features self) \<Longrightarrow>
           \<exists>xs L. v = Int64Vector xs \<and> sl k = Some L \<and>
                  v' = Int64Vector (py_slice_upto xs (L - 1) @ [1])"
  using assms
  by (auto simp: trim_and_append_eos_def split: if_splits option.splits tensor.splits)

lemma preprocess_tokens_elements:
  assumes "token_preprocessed self ds sl = Inr ds1"
    and "Task_preprocess_tokens self ds sl = Inr out"
  shows "elements out =
           map (\<lambda>r. case r of Inl e \<Rightarrow> Inl e
                    | Inr ex \<Rightarrow> dict_comprehension (trim_and_append_eos self sl) ex)
             (map (\<lambda>r. case r of Inl e \<Rightarrow> Inl e
                       | Inr ex \<Rightarrow> dict_comprehension
                                    (ensure_no_eos self ''token preprocessing'') ex)
                (elements ds1))"
    and "check_features ds1 DT_INT64 1 ''token preprocessing'' (output_features self) = None"
  using assms
  by (auto simp: Task_preprocess_tokens_def Task_validate_dataset_def dataset_map_def
      split: option.splits)

lemma conforms_entry:
  assumes "conforms ds" and "i < length (elements ds)" and "elements ds ! i = Inr ex"
    and "kv \<in> set ex"
  shows "entry_conforms ds kv"
proof -
  from assms(2,3) have "Inr ex \<in> set (elements ds)" by (metis nth_mem)
  with assms(1,4) show ?thesis
    by (auto simp: conforms_def list_all_iff)
qed

lemma validated_output_feature_is_vector:
  assumes chk: "check_features ds DT_INT64 1 lbl (output_features self) = None"
    and conf: "entry_conforms ds kv"
    and k: "fst kv \<in> set (output_features self)"
  shows "\<exists>xs. snd kv = Int64Vector xs"
proof -
  from check_features_None[OF chk k] obtain sh where
    "map_of (output_types ds) (fst kv) = Some DT_INT64"
    "map_of (output_shapes ds) (fst kv) = Some sh" "length sh = 1"
    by auto
  with conf have "tensor_matches (snd kv) DT_INT64 sh"
    by (simp add: entry_conforms_def)
  then show ?thesis using \<open>length sh = 1\<close> by (rule tensor_matches_int64_rank1)
qed

lemma ensure_no_eos_vector:
  "ensure_no_eos self lbl k (Int64Vector xs) =
     (if k \<in> set (output_features self) \<and> 1 \<in> set xs then Inl (UnexpectedEosError k lbl)
      else Inr (Int64Vector xs))"
  by (simp add: ensure_no_eos_def)

lemma trim_and_append_eos_not_eos_error:
  "trim_and_append_eos self sl k v \<noteq> Inl (UnexpectedEosError f l)"
  by (auto simp: trim_and_append_eos_def split: option.splits tensor.splits)

lemma trim_idempotent:
  assumes "feat \<in> set (output_features self)" and "xs \<noteq> []" and "last xs = 1"
    and "sequence_length feat = Some (int (length xs))"
  shows "trim_and_append_eos self sequence_length feat (Int64Vector xs) = Inr (Int64Vector xs)"
proof -
  have "take (length xs - 1) xs @ [1] = xs"
    using assms(2,3) by (metis append_butlast_last_id butlast_conv_take)
  moreover have "nat (int (length xs) - 1) = length xs - 1" by simp
  ultimately show ?thesis using assms(1,2,4)
    by (simp add: trim_and_append_eos_def py_slice_upto_def)
qed

lemma eos_check_element:
  assumes pre: "token_preprocessed self ds sequence_length = Inr ds1"
    and out: "Task_preprocess_tokens self ds sequence_length = Inr out"
    and i: "i < length (elements ds1)"
    and ex: "elements ds1 ! i = Inr ex"
  shows "elements out ! i =
      (case dict_comprehension (ensure_no_eos self ''token preprocessing'') ex of
         Inl e \<Rightarrow> Inl e
       | Inr ex2 \<Rightarrow> dict_comprehension (trim_and_append_eos self sequence_length) ex2)"
  using preprocess_tokens_elements(1)[OF pre out] i ex by simp

lemma eos_in_output_feature_fails:
  assumes pre: "token_preprocessed self ds sequence_length = Inr ds1"
    and conf: "conforms ds1"
    and out: "Task_preprocess_tokens self ds sequence_length = Inr out"
    and i: "i < length (elements ds1)"
    and ex: "elements ds1 ! i = Inr ex"
    and kx: "(k, Int64Vector xs) \<in> set ex" "k \<in> set (output_features self)" "1 \<in> set xs"
  shows "\<exists>feat. elements out ! i = Inl (UnexpectedEosError feat ''token preprocessing'')"
proof -
  let ?lbl = "''token preprocessing''"
  let ?f = "ensure_no_eos self ?lbl"
  note chk = preprocess_tokens_elements(2)[OF pre out]
  have vec: "\<And>kv. kv \<in> set ex \<Longrightarrow> fst kv \<in> set (output_features self) \<Longrightarrow>
      \<exists>xs. snd kv = Int64Vector xs"
    using validated_output_feature_is_vector[OF chk] conforms_entry[OF conf i ex] by blast
  from kx have "?f (fst (k, Int64Vector xs)) (snd (k, Int64Vector xs))
      = Inl (UnexpectedEosError k ?lbl)"
    by (simp add: ensure_no_eos_vector)
  from dict_comprehension_first_failure[where f = "?f", OF kx(1) this] obtain kv' e' where
    kv': "kv' \<in> set ex" "?f (fst kv') (snd kv') = Inl e'" "dict_comprehension ?f ex = Inl e'"
    by blast
  from kv'(2) have "fst kv' \<in> set (output_features self)"
    by (auto simp: ensure_no_eos_def split: if_splits)
  with vec kv'(1) obtain ys where "snd kv' = Int64Vector ys" by blast
  with kv'(2) have "e' = UnexpectedEosError (fst kv') ?lbl"
    by (auto simp: ensure_no_eos_vector split: if_splits)
  with kv'(3) eos_check_element[OF pre out i ex] show ?thesis by auto
qed

text \<open>
  Claim C1, as amended. Let \<open>ds1\<close> be what the token preprocessors return and \<open>out\<close> the
  dataset returned by \<^verbatim>\<open>preprocess_tokens\<close>. Every example that \<open>out\<close> yields comes
  from the example of \<open>ds1\<close> at the same position and has the same keys in the same
  order; a feature that is not an output feature of the Task has its value unchanged;
  an output feature with \<open>sequence_length[feature] = L\<close> is a token sequence whose last
  element is the EOS id 1 and, when \<open>L \<ge> 1\<close>, whose length is exactly
  \<open>min(L, original_length + 1)\<close>.
\<close>

theorem preprocess_tokens_trims_and_appends_eos:
  assumes pre: "token_preprocessed self ds sequence_length = Inr ds1"
    and out: "Task_preprocess_tokens self ds sequence_length = Inr out"
    and i: "i < length (elements out)"
    and ex': "elements out ! i = Inr ex'"
  shows "i < length (elements ds1) \<and>
         (\<exists>ex. elements ds1 ! i = Inr ex \<and> length ex' = length ex \<and>
            (\<forall>j < length ex.
               fst (ex' ! j) = fst (ex ! j) \<and>
               (fst (ex ! j) \<notin> set (output_features self) \<longrightarrow> snd (ex' ! j) = snd (ex ! j)) \<and>
               (fst (ex ! j) \<in> set (output_features self) \<longrightarrow>
                  (\<exists>xs ys L. snd (ex ! j) = Int64Vector xs \<and> snd (ex' ! j) = Int64Vector ys \<and>
                     sequence_length (fst (ex ! j)) = Some L \<and>
                     (1 \<le> L \<longrightarrow> int (length ys) = min L (int (length xs) + 1)) \<and>
                     last ys = 1))))"
proof -
  note els = preprocess_tokens_elements(1)[OF pre out]
  from i els have i1: "i < length (elements ds1)" by simp
  from ex' els i1 obtain ex ex2 where
    ex: "elements ds1 ! i = Inr ex"
    and e2: "dict_comprehension (ensure_no_eos self ''token preprocessing'') ex = Inr ex2"
    and e3: "dict_comprehension (trim_and_append_eos self sequence_length) ex2 = Inr ex'"
    by (auto split: sum.splits)
  from e2 have "ex2 = ex" by (rule dict_ensure_no_eos_Inr)
  with e3 have "list_all2 (\<lambda>kv kv'. fst kv' = fst kv \<and>
      trim_and_append_eos self sequence_length (fst kv) (snd kv) = Inr (snd kv')) ex ex'"
    by (auto dest: dict_comprehension_Inr)
  then have len: "length ex = length ex'"
    and nth: "\<And>j. j < length ex \<Longrightarrow> fst (ex' ! j) = fst (ex ! j) \<and>
      trim_and_append_eos self sequence_length (fst (ex ! j)) (snd (ex ! j)) = Inr (snd (ex' ! j))"
    by (auto simp: list_all2_conv_all_nth)
  have "\<forall>j < length ex.
               fst (ex' ! j) = fst (ex ! j) \<and>
               (fst (ex ! j) \<notin> set (output_features self) \<longrightarrow> snd (ex' ! j) = snd (ex ! j)) \<and>
               (fst (ex ! j) \<in> set (output_features self) \<longrightarrow>
                  (\<exists>xs ys L. snd (ex ! j) = Int64Vector xs \<and> snd (ex' ! j) = Int64Vector ys \<and>
                     sequence_length (fst (ex ! j)) = Some L \<and>
                     (1 \<le> L \<longrightarrow> int (length ys) = min L (int (length xs) + 1)) \<and>
                     last ys = 1))"
  proof (intro allI impI conjI)
    fix j assume j: "j < length ex"
    show "fst (ex' ! j) = fst (ex ! j)" using nth[OF j] by simp
  next
    fix j assume j: "j < length ex" and "fst (ex ! j) \<notin> set (output_features self)"
    then show "snd (ex' ! j) = snd (ex ! j)"
      using nth[OF j] trim_and_append_eos_Inr(1) by blast
  next
    fix j assume j: "j < length ex" and "fst (ex ! j) \<in> set (output_features self)"
    then obtain xs L where v: "snd (ex ! j) = Int64Vector xs"
      and L: "sequence_length (fst (ex ! j)) = Some L"
      and v': "snd (ex' ! j) = Int64Vector (py_slice_upto xs (L - 1) @ [1])"
      using nth[OF j] trim_and_append_eos_Inr(2) by blast
    have "1 \<le> L \<longrightarrow> int (length (py_slice_upto xs (L - 1) @ [1])) = min L (int (length xs) + 1)"
      by (auto simp: py_slice_upto_length)
    with v L v' show "\<exists>xs ys L. snd (ex ! j) = Int64Vector xs \<and> snd (ex' ! j) = Int64Vector ys \<and>
                     sequence_length (fst (ex ! j)) = Some L \<and>
                     (1 \<le> L \<longrightarrow> int (length ys) = min L (int (length xs) + 1)) \<and>
                     last ys = 1"
      by auto
  qed
  with i1 ex len show ?thesis by auto
qed

theorem preprocess_tokens_trims_and_appends_eos_witness:
  "token_preprocessed (sample_task ''cola'')
       (sample_dataset [Inr (sample_example [5, 6, 7] [8])])
       [''inputs'' \<mapsto> 3, ''targets'' \<mapsto> 4]
     = Inr (sample_dataset [Inr (sample_example [5, 6, 7] [8])])
   \<and> Task_preprocess_tokens (sample_task ''cola'')
       (sample_dataset [Inr (sample_example [5, 6, 7] [8])])
       [''inputs'' \<mapsto> 3, ''targets'' \<mapsto> 4]
     = Inr (sample_dataset [Inr (sample_example [5, 6, 1] [8, 1])])
   \<and> 0 < length (elements (sample_dataset [Inr (sample_example [5, 6, 1] [8, 1])]))
   \<and> elements (sample_dataset [Inr (sample_example [5, 6, 1] [8, 1])]) ! 0
     = Inr (sample_example [5, 6, 1] [8, 1])
   \<and> (\<exists>ex. elements (sample_dataset [Inr (sample_example [5, 6, 7] [8])]) ! 0 = Inr ex
         \<and> length (sample_example [5, 6, 1] [8, 1]) = length ex)"
proof -
  have h1: "token_preprocessed (sample_task ''cola'')
       (sample_dataset [Inr (sample_example [5, 6, 7] [8])])
       [''inputs'' \<mapsto> 3, ''targets'' \<mapsto> 4]
     = Inr (sample_dataset [Inr (sample_example [5, 6, 7] [8])])"
    by (simp add: token_preprocessed_def Task_preprocess_dataset_def sample_task_def)
  have h2: "Task_preprocess_tokens (sample_task ''cola'')
       (sample_dataset [Inr (sample_example [5, 6, 7] [8])])
       [''inputs'' \<mapsto> 3, ''targets'' \<mapsto> 4]
     = Inr (sample_dataset [Inr (sample_example [5, 6, 1] [8, 1])])"
    by (simp add: Task_preprocess_tokens_def token_preprocessed_def Task_preprocess_dataset_def
        Task_validate_dataset_def sample_task_def sample_dataset_def sample_example_def
        dataset_map_def ensure_no_eos_def trim_and_append_eos_def py_slice_upto_def)
  have h3: "0 < length (elements (sample_dataset [Inr (sample_example [5, 6, 1] [8, 1])]))"
    by (simp add: sample_dataset_def)
  have h4: "elements (sample_dataset [Inr (sample_example [5, 6, 1] [8, 1])]) ! 0
     = Inr (sample_example [5, 6, 1] [8, 1])"
    by (simp add: sample_dataset_def)
  from preprocess_tokens_trims_and_appends_eos [OF h1 h2 h3 h4] h1 h2 h3 h4
  show ?thesis by blast
qed

text \<open>
  The claim as written, for every \<open>L\<close>, fails at \<open>L = 0\<close>: the bound of the slice is
  \<open>-1\<close>, which drops the last token, and the EOS id is appended all the same, so the
  result has three elements where \<open>min(0, 3 + 1) = 0\<close>.
\<close>

theorem preprocess_tokens_length_counterexample:
  "Task_preprocess_tokens (sample_task ''cola'')
       (sample_dataset [Inr (sample_example [5, 6, 7] [8])])
       [''inputs'' \<mapsto> 0, ''targets'' \<mapsto> 4]
     = Inr (sample_dataset [Inr (sample_example [5, 6, 1] [8, 1])])
   \<and> int (length [5, 6, 1 :: int]) \<noteq> min 0 (int (length [5, 6, 7 :: int]) + 1)"
  by (simp add: Task_preprocess_tokens_def token_preprocessed_def Task_preprocess_dataset_def
      Task_validate_dataset_def sample_task_def sample_dataset_def sample_example_def
      dataset_map_def ensure_no_eos_def trim_and_append_eos_def py_slice_upto_def)

text \<open>
  Claim C2, as amended. Take an output feature whose value reaches validation with
  length exactly \<open>L = sequence_length[feature]\<close> and the EOS id 1 as its last element.
  The trimming step by itself (trim to \<open>L - 1\<close>, append EOS) returns the identical
  sequence. \<^verbatim>\<open>preprocess_tokens\<close> does not: the check for EOS ids runs before the
  trimming and fails the example with \<open>UnexpectedEosError\<close>.
\<close>

theorem trimming_idempotent_but_eos_rejected:
  assumes pre: "token_preprocessed self ds sequence_length = Inr ds1"
    and conf: "conforms ds1"
    and out: "Task_preprocess_tokens self ds sequence_length = Inr out"
    and i: "i < length (elements ds1)"
    and ex: "elements ds1 ! i = Inr ex"
    and kx: "(feat, Int64Vector xs) \<in> set ex"
    and feat: "feat \<in> set (output_features self)"
    and xs: "xs \<noteq> []" "last xs = 1"
    and L: "sequence_length feat = Some (int (length xs))"
  shows "trim_and_append_eos self sequence_length feat (Int64Vector xs) = Inr (Int64Vector xs)
       \<and> (\<exists>f. elements out ! i = Inl (UnexpectedEosError f ''token preprocessing''))"
proof
  show "trim_and_append_eos self sequence_length feat (Int64Vector xs) = Inr (Int64Vector xs)"
    using feat xs L by (rule trim_idempotent)
next
  from xs have "1 \<in> set xs" by (metis last_in_set)
  with pre conf out i ex kx feat
  show "\<exists>f. elements out ! i = Inl (UnexpectedEosError f ''token preprocessing'')"
    by (rule eos_in_output_feature_fails)
qed

theorem trimming_idempotent_but_eos_rejected_witness:
  "token_preprocessed (sample_task ''cola'')
       (sample_dataset [Inr (sample_example [5, 1] [8])])
       [''inputs'' \<mapsto> 2, ''targets'' \<mapsto> 2]
     = Inr (sample_dataset [Inr (sample_example [5, 1] [8])])
   \<and> conforms (sample_dataset [Inr (sample_example [5, 1] [8])])
   \<and> Task_preprocess_tokens (sample_task ''cola'')
       (sample_dataset [Inr (sample_example [5, 1] [8])])
       [''inputs'' \<mapsto> 2, ''targets'' \<mapsto> 2]
     = Inr (sample_dataset [Inl (UnexpectedEosError ''inputs'' ''token preprocessing'')])
   \<and> 0 < length (elements (sample_dataset [Inr (sample_example [5, 1] [8])]))
   \<and> elements (sample_dataset [Inr (sample_example [5, 1] [8])]) ! 0
     = Inr (sample_example [5, 1] [8])
   \<and> (''inputs'', Int64Vector [5, 1]) \<in> set (sample_example [5, 1] [8])
   \<and> ''inputs'' \<in> set (output_features (sample_task ''cola''))
   \<and> [5, 1 :: int] \<noteq> [] \<and> last [5, 1 :: int] = 1
   \<and> [''inputs'' \<mapsto> 2, ''targets'' \<mapsto> 2] ''inputs'' = Some (int (length [5, 1 :: int]))
   \<and> trim_and_append_eos (sample_task ''cola'') [''inputs'' \<mapsto> 2, ''targets'' \<mapsto> 2]
        ''inputs'' (Int64Vector [5, 1]) = Inr (Int64Vector [5, 1])
   \<and> (\<exists>f. elements (sample_dataset
               [Inl (UnexpectedEosError ''inputs'' ''token preprocessing'')]) ! 0
            = Inl (UnexpectedEosError f ''token preprocessing''))"
proof -
  let ?ds = "sample_dataset [Inr (sample_example [5, 1] [8])]"
  let ?sl = "[''inputs'' \<mapsto> 2 :: int, ''targets'' \<mapsto> 2]"
  have h1: "token_preprocessed (sample_task ''cola'') ?ds ?sl = Inr ?ds"
    by (simp add: token_preprocessed_def Task_preprocess_dataset_def sample_task_def)
  have h2: "conforms ?ds"
    by (simp add: conforms_def entry_conforms_def sample_dataset_def sample_example_def)
  have h3: "Task_preprocess_tokens (sample_task ''cola'') ?ds ?sl
      = Inr (sample_dataset [Inl (UnexpectedEosError ''inputs'' ''token preprocessing'')])"
    by (simp add: Task_preprocess_tokens_def token_preprocessed_def Task_preprocess_dataset_def
        Task_validate_dataset_def sample_task_def sample_dataset_def sample_example_def
        dataset_map_def ensure_no_eos_def trim_and_append_eos_def py_slice_upto_def)
  have h4: "0 < length (elements ?ds)"
    by (simp add: sample_dataset_def)
  have h5: "elements ?ds ! 0 = Inr (sample_example [5, 1] [8])"
    by (simp add: sample_dataset_def)
  have h6: "(''inputs'', Int64Vector [5, 1]) \<in> set (sample_example [5, 1] [8])"
    by (simp add: sample_example_def)
  have h7: "''inputs'' \<in> set (output_features (sample_task ''cola''))"
    by (simp add: sample_task_def)
  have h8: "[5, 1 :: int] \<noteq> []" and h9: "last [5, 1 :: int] = 1"
    by simp_all
  have h10: "?sl ''inputs'' = Some (int (length [5, 1 :: int]))"
    by simp
  from trimming_idempotent_but_eos_rejected [OF h1 h2 h3 h4 h5 h6 h7 h8 h9 h10]
    h1 h2 h3 h4 h5 h6 h7 h8 h9 h10
  show ?thesis by blast
qed

text \<open>
  The claim as written fails: the sequences \<open>[5, 1]\<close> and \<open>[8, 1]\<close> have length
  \<open>L = 2\<close> and end in EOS, and \<^verbatim>\<open>preprocess_tokens\<close> yields an error for the example
  instead of the identical sequences.
\<close>

theorem preprocess_tokens_idempotence_counterexample:
  "Task_preprocess_tokens (sample_task ''cola'')
       (sample_dataset [Inr (sample_example [5, 1] [8, 1])])
       [''inputs'' \<mapsto> 2, ''targets'' \<mapsto> 2]
     = Inr (sample_dataset [Inl (UnexpectedEosError ''inputs'' ''token preprocessing'')])
   \<and> Inl (UnexpectedEosError ''inputs'' ''token preprocessing'')
       \<noteq> (Inr (sample_example [5, 1] [8, 1]) :: error + example)"
  by (simp add: Task_preprocess_tokens_def token_preprocessed_def Task_preprocess_dataset_def
      Task_validate_dataset_def sample_task_def sample_dataset_def sample_example_def
      dataset_map_def ensure_no_eos_def trim_and_append_eos_def py_slice_upto_def)

text \<open>
  Claim C3. Let \<open>ds1\<close> be what the token preprocessors return (a dataset whose values
  have the dtypes and shapes of its static structure) and \<open>out\<close> the dataset returned by
  \<^verbatim>\<open>preprocess_tokens\<close>. An example of \<open>ds1\<close> fails with \<open>UnexpectedEosError\<close> exactly
  when one of the Task's output features contains the id 1 in it: such an example is
  never yielded, and an id 1 in any other feature is not looked at.
\<close>

theorem preprocess_tokens_rejects_eos:
  assumes pre: "token_preprocessed self ds sequence_length = Inr ds1"
    and conf: "conforms ds1"
    and out: "Task_preprocess_tokens self ds sequence_length = Inr out"
    and i: "i < length (elements ds1)"
    and ex: "elements ds1 ! i = Inr ex"
  shows "(\<exists>feat. elements out ! i = Inl (UnexpectedEosError feat ''token preprocessing'')) \<longleftrightarrow>
         (\<exists>k xs. (k, Int64Vector xs) \<in> set ex \<and> k \<in> set (output_features self) \<and> 1 \<in> set xs)"
proof
  let ?lbl = "''token preprocessing''"
  let ?f = "ensure_no_eos self ?lbl"
  note chk = preprocess_tokens_elements(2)[OF pre out]
  note el = eos_check_element[OF pre out i ex]
  have vec: "\<And>kv. kv \<in> set ex \<Longrightarrow> fst kv \<in> set (output_features self) \<Longrightarrow>
      \<exists>xs. snd kv = Int64Vector xs"
    using validated_output_feature_is_vector[OF chk] conforms_entry[OF conf i ex] by blast
  assume "\<exists>feat. elements out ! i = Inl (UnexpectedEosError feat ?lbl)"
  then obtain feat where f: "elements out ! i = Inl (UnexpectedEosError feat ?lbl)" ..
  show "\<exists>k xs. (k, Int64Vector xs) \<in> set ex \<and> k \<in> set (output_features self) \<and> 1 \<in> set xs"
  proof (cases "dict_comprehension ?f ex")
    case (Inl e)
    with el f have e: "e = UnexpectedEosError feat ?lbl" by simp
    from dict_comprehension_Inl[OF Inl] obtain kv where
      kv: "kv \<in> set ex" "?f (fst kv) (snd kv) = Inl e" by blast
    then have "fst kv \<in> set (output_features self)"
      by (auto simp: ensure_no_eos_def split: if_splits)
    with vec kv(1) obtain xs where xs: "snd kv = Int64Vector xs" by blast
    with kv(2) have "1 \<in> set xs" "fst kv \<in> set (output_features self)"
      by (auto simp: ensure_no_eos_vector split: if_splits)
    moreover from kv(1) xs have "(fst kv, Int64Vector xs) \<in> set ex"
      by (metis prod.collapse)
    ultimately show ?thesis by blast
  next
    case (Inr ex2)
    with el f have "dict_comprehension (trim_and_append_eos self sequence_length) ex2
        = Inl (UnexpectedEosError feat ?lbl)" by simp
    from dict_comprehension_Inl[OF this] show ?thesis
      by (auto simp: trim_and_append_eos_not_eos_error)
  qed
next
  assume "\<exists>k xs. (k, Int64Vector xs) \<in> set ex \<and> k \<in> set (output_features self) \<and> 1 \<in> set xs"
  then obtain k xs where "(k, Int64Vector xs) \<in> set ex" "k \<in> set (output_features self)"
    "1 \<in> set xs" by blast
  with pre conf out i ex
  show "\<exists>feat. elements out ! i = Inl (UnexpectedEosError feat ''token preprocessing'')"
    by (rule eos_in_output_feature_fails)
qed

theorem preprocess_tokens_rejects_eos_witness:
  "token_preprocessed (sample_task ''cola'')
       (sample_dataset [Inr (sample_example [5, 6] [1, 7])])
       [''inputs'' \<mapsto> 8, ''targets'' \<mapsto> 8]
     = Inr (sample_dataset [Inr (sample_example [5, 6] [1, 7])])
   \<and> conforms (sample_dataset [Inr (sample_example [5, 6] [1, 7])])
   \<and> Task_preprocess_tokens (sample_task ''cola'')
       (sample_dataset [Inr (sample_example [5, 6] [1, 7])])
       [''inputs'' \<mapsto> 8, ''targets'' \<mapsto> 8]
     = Inr (sample_dataset [Inl (UnexpectedEosError ''targets'' ''token preprocessing'')])
   \<and> 0 < length (elements (sample_dataset [Inr (sample_example [5, 6] [1, 7])]))
   \<and> elements (sample_dataset [Inr (sample_example [5, 6] [1, 7])]) ! 0
     = Inr (sample_example [5, 6] [1, 7])
   \<and> ((\<exists>feat. elements (sample_dataset
                  [Inl (UnexpectedEosError ''targets'' ''token preprocessing'')]) ! 0
               = Inl (UnexpectedEosError feat ''token preprocessing'')) \<longleftrightarrow>
       (\<exists>k xs. (k, Int64Vector xs) \<in> set (sample_example [5, 6] [1, 7])
              \<and> k \<in> set (output_features (sample_task ''cola'')) \<and> 1 \<in> set xs))"
proof -
  let ?ds = "sample_dataset [Inr (sample_example [5, 6] [1, 7])]"
  let ?sl = "[''inputs'' \<mapsto> 8 :: int, ''targets'' \<mapsto> 8]"
  have h1: "token_preprocessed (sample_task ''cola'') ?ds ?sl = Inr ?ds"
    by (simp add: token_preprocessed_def Task_preprocess_dataset_def sample_task_def)
  have h2: "conforms ?ds"
    by (simp add: conforms_def entry_conforms_def sample_dataset_def sample_example_def)
  have h3: "Task_preprocess_tokens (sample_task ''cola'') ?ds ?sl
      = Inr (sample_dataset [Inl (UnexpectedEosError ''targets'' ''token preprocessing'')])"
    by (simp add: Task_preprocess_tokens_def token_preprocessed_def Task_preprocess_dataset_def
        Task_validate_dataset_def sample_task_def sample_dataset_def sample_example_def
        dataset_map_def ensure_no_eos_def trim_and_append_eos_def py_slice_upto_def)
  have h4: "0 < length (elements ?ds)"
    by (simp add: sample_dataset_def)
  have h5: "elements ?ds ! 0 = Inr (sample_example [5, 6] [1, 7])"
    by (simp add: sample_dataset_def)
  from preprocess_tokens_rejects_eos [OF h1 h2 h3 h4 h5] h1 h2 h3 h4 h5
  show ?thesis by blast
qed

section \<open>Properties of Task construction\<close>

lemma underscore_code: "(of_char c :: nat) = 95 \<longleftrightarrow> c = CHR ''_''"
proof -
  have "(of_char (CHR ''_'') :: nat) = 95" by simp
  then show ?thesis by (metis of_char_eq_iff)
qed

lemma name_class_spec: "name_class c = spec_name_char c"
  by (auto simp: name_class_def spec_name_char_def is_word_def is_digit_def Let_def
      underscore_code)

lemma regex_match_iff:
  "VALID_TASK_NAME_REGEX_match s \<longleftrightarrow>
     (\<exists>n. 1 \<le> n \<and> n \<le> length s \<and> list_all name_class (take n s) \<and> at_dollar (drop n s))"
  by (auto simp: VALID_TASK_NAME_REGEX_match_def list_ex_iff)

text \<open>
  What the pattern accepts: the names the specification describes, and each of them
  followed by one newline.
\<close>

lemma task_name_regex_characterisation:
  "VALID_TASK_NAME_REGEX_match s \<longleftrightarrow>
     spec_valid_task_name s \<or> (\<exists>p. s = p @ [CHR 0x0A] \<and> spec_valid_task_name p)"
proof
  assume "VALID_TASK_NAME_REGEX_match s"
  then obtain n where n: "1 \<le> n" "n \<le> length s" "list_all name_class (take n s)"
    "at_dollar (drop n s)" by (auto simp: regex_match_iff)
  from n(4) consider "drop n s = []" | "drop n s = [CHR 0x0A]" by (auto simp: at_dollar_def)
  then show "spec_valid_task_name s \<or> (\<exists>p. s = p @ [CHR 0x0A] \<and> spec_valid_task_name p)"
  proof cases
    case 1
    with n(2) have "take n s = s" by simp
    with n(1,2,3) show ?thesis
      by (auto simp: spec_valid_task_name_def name_class_spec [abs_def])
  next
    case 2
    then have "s = take n s @ [CHR 0x0A]" by (metis append_take_drop_id)
    moreover from n(1,2) have "take n s \<noteq> []" by auto
    ultimately show ?thesis using n(3)
      by (auto simp: spec_valid_task_name_def name_class_spec [abs_def])
  qed
next
  assume "spec_valid_task_name s \<or> (\<exists>p. s = p @ [CHR 0x0A] \<and> spec_valid_task_name p)"
  then show "VALID_TASK_NAME_REGEX_match s"
  proof
    assume "spec_valid_task_name s"
    then have "1 \<le> length s \<and> length s \<le> length s \<and> list_all name_class (take (length s) s)
        \<and> at_dollar (drop (length s) s)"
      by (cases s) (auto simp: spec_valid_task_name_def name_class_spec [abs_def] at_dollar_def)
    then show ?thesis unfolding regex_match_iff by blast
  next
    assume "\<exists>p. s = p @ [CHR 0x0A] \<and> spec_valid_task_name p"
    then obtain p where p: "s = p @ [CHR 0x0A]" "spec_valid_task_name p" by blast
    then have "1 \<le> length p \<and> length p \<le> length s \<and> list_all name_class (take (length p) s)
        \<and> at_dollar (drop (length p) s)"
      by (cases p) (auto simp: spec_valid_task_name_def name_class_spec [abs_def] at_dollar_def)
    then show ?thesis unfolding regex_match_iff by blast
  qed
qed

text \<open>
  Claim C6 does not hold of the code. The name made of the letter \<open>a\<close> and a newline
  is not a string over letters, digits, underscore and dot, yet the pattern matches it
  (\<^verbatim>\<open>$\<close> holds before a final newline) and the constructor builds the Task.
\<close>

theorem task_name_with_trailing_newline_accepted:
  "VALID_TASK_NAME_REGEX_match [CHR ''a'', CHR 0x0A]
   \<and> \<not> spec_valid_task_name [CHR ''a'', CHR 0x0A]
   \<and> fst (Task_init [CHR ''a'', CHR 0x0A] sample_kwargs no_loaders)
       = Inr (sample_task [CHR ''a'', CHR 0x0A])"
  by (simp add: Task_init_def sample_kwargs_def no_loaders_def sample_task_def sample_loaders_def
      VALID_TASK_NAME_REGEX_match_def name_class_def is_word_def is_digit_def at_dollar_def
      LazyTfdsLoader_call_def LazyTfdsLoader_new_def LazyTfdsLoader_init_def object_new_def
      sorted_set_def or_default_def DEFAULT_FEATURE_KEYS_def sorted_list_of_set_sort_remdups
      spec_valid_task_name_def spec_name_char_def)

lemma Task_init_Inr:
  assumes "Task_init n kw s = (Inr t, s')"
  shows "name t = n"
    and "output_features t = sorted_set (or_default (arg_output_features kw))"
    and "sentencepiece_model_path t = arg_sentencepiece_model_path kw"
    and "VALID_TASK_NAME_REGEX_match n"
  using assms
  by (auto simp: Task_init_def split: if_splits prod.splits)


lemma sorted_set_code: "sorted_set xs = sort (remdups xs)"
  by (simp add: sorted_set_def sorted_list_of_set_sort_remdups)


lemma sample_task_constructed:
  "Task_init ''cola'' sample_kwargs no_loaders = (Inr (sample_task ''cola''), sample_loaders)"
  by (simp add: Task_init_def sample_kwargs_def no_loaders_def sample_task_def sample_loaders_def
      VALID_TASK_NAME_REGEX_match_def name_class_def is_word_def is_digit_def at_dollar_def
      LazyTfdsLoader_call_def LazyTfdsLoader_new_def LazyTfdsLoader_init_def object_new_def
      sorted_set_def or_default_def DEFAULT_FEATURE_KEYS_def sorted_list_of_set_sort_remdups)



section \<open>Properties of the registries\<close>

lemma registry_add_duplicate:
  "REGISTRY n \<noteq> None \<Longrightarrow>
   DatasetProviderRegistry_add n provider_cls is_type (REGISTRY, s)
     = (Inl DuplicateRegistration, REGISTRY, s)"
  by (simp add: DatasetProviderRegistry_add_def)

lemma registry_add_success:
  assumes "DatasetProviderRegistry_add n provider_cls is_type (REGISTRY, s) = (Inr (), REGISTRY', s')"
  shows "REGISTRY n = None \<and> (\<exists>p. provider_cls s = (Inr p, s') \<and> is_type p \<and> REGISTRY' = REGISTRY(n \<mapsto> p))"
  using assms
  by (auto simp: DatasetProviderRegistry_add_def split: if_splits prod.splits sum.splits)

text \<open>
  Claim C7. \<^verbatim>\<open>add\<close> with a name that is already registered raises
  \<open>DuplicateRegistration\<close> and returns the whole state as it was: the registry is
  unchanged and so is everything the provider's constructor would have changed, for it
  is never run. After a successful \<^verbatim>\<open>add\<close>, \<^verbatim>\<open>get\<close> with that name returns the
  provider that was constructed, and for \<^verbatim>\<open>TaskRegistry\<close> its name is the registration
  key. \<^verbatim>\<open>get\<close> with a name that is absent raises \<open>NotFound\<close>.
\<close>

theorem registry_add_then_get:
  "(TaskRegistry w n \<noteq> None \<longrightarrow>
      TaskRegistry_add n kwargs w = (Inl DuplicateRegistration, w))
   \<and> (TaskRegistry_add n kwargs w = (Inr (), w') \<longrightarrow>
        (\<exists>t. TaskRegistry_get n w' = Inr t \<and> name t = n
           \<and> Task_init n kwargs (tfds_loaders w) = (Inr t, tfds_loaders w')))
   \<and> (TaskRegistry w n = None \<longrightarrow> TaskRegistry_get n w = Inl NotFound)
   \<and> (REGISTRY n \<noteq> None \<longrightarrow>
        DatasetProviderRegistry_add n provider_cls is_type (REGISTRY, s)
          = (Inl DuplicateRegistration, REGISTRY, s))
   \<and> (DatasetProviderRegistry_add n provider_cls is_type (REGISTRY, s) = (Inr (), REGISTRY', s')
        \<longrightarrow> (\<exists>p. provider_cls s = (Inr p, s')
               \<and> DatasetProviderRegistry_get REGISTRY' n = Inr p))
   \<and> (REGISTRY n = None \<longrightarrow> DatasetProviderRegistry_get REGISTRY n = Inl NotFound)"
proof (intro conjI impI)
  assume "TaskRegistry w n \<noteq> None"
  then show "TaskRegistry_add n kwargs w = (Inl DuplicateRegistration, w)"
    by (simp add: TaskRegistry_add_def registry_add_duplicate)
next
  assume a: "TaskRegistry_add n kwargs w = (Inr (), w')"
  then obtain R' s' where
    r: "DatasetProviderRegistry_add n (Task_init n kwargs) (\<lambda>provider. True)
          (TaskRegistry w, tfds_loaders w) = (Inr (), R', s')"
    and w': "w' = w\<lparr>tfds_loaders := s', TaskRegistry := R'\<rparr>"
    by (auto simp: TaskRegistry_add_def split: prod.splits)
  from registry_add_success[OF r] obtain t where
    t: "Task_init n kwargs (tfds_loaders w) = (Inr t, s')" "R' = (TaskRegistry w)(n \<mapsto> t)"
    by blast
  from Task_init_Inr(1)[OF t(1)] have "name t = n" .
  with t w' show "\<exists>t. TaskRegistry_get n w' = Inr t \<and> name t = n
            \<and> Task_init n kwargs (tfds_loaders w) = (Inr t, tfds_loaders w')"
    by (simp add: TaskRegistry_get_def DatasetProviderRegistry_get_def)
next
  assume "TaskRegistry w n = None"
  then show "TaskRegistry_get n w = Inl NotFound"
    by (simp add: TaskRegistry_get_def DatasetProviderRegistry_get_def)
next
  assume "REGISTRY n \<noteq> None"
  then show "DatasetProviderRegistry_add n provider_cls is_type (REGISTRY, s)
          = (Inl DuplicateRegistration, REGISTRY, s)"
    by (rule registry_add_duplicate)
next
  assume "DatasetProviderRegistry_add n provider_cls is_type (REGISTRY, s) = (Inr (), REGISTRY', s')"
  from registry_add_success[OF this]
  show "\<exists>p. provider_cls s = (Inr p, s') \<and> DatasetProviderRegistry_get REGISTRY' n = Inr p"
    by (auto simp: DatasetProviderRegistry_get_def)
next
  assume "REGISTRY n = None"
  then show "DatasetProviderRegistry_get REGISTRY n = Inl NotFound"
    by (simp add: DatasetProviderRegistry_get_def)
qed

theorem registry_add_then_get_witness:
  "TaskRegistry sample_world1 ''cola'' \<noteq> None
   \<and> TaskRegistry_add ''cola'' sample_kwargs sample_world1
       = (Inl DuplicateRegistration, sample_world1)
   \<and> DatasetProviderRegistry_add ''cola'' (Task_init ''cola'' sample_kwargs)
        (\<lambda>provider. True) (TaskRegistry sample_world1, no_loaders)
       = (Inl DuplicateRegistration, TaskRegistry sample_world1, no_loaders)
   \<and> TaskRegistry_add ''cola'' sample_kwargs sample_world0 = (Inr (), sample_world1)
   \<and> (\<exists>t. TaskRegistry_get ''cola'' sample_world1 = Inr t \<and> name t = ''cola'')
   \<and> TaskRegistry sample_world0 ''cola'' = None
   \<and> TaskRegistry_get ''cola'' sample_world0 = Inl NotFound
   \<and> DatasetProviderRegistry_add ''cola'' (Task_init ''cola'' sample_kwargs)
        (\<lambda>provider. True) (Map.empty, no_loaders)
       = (Inr (), TaskRegistry sample_world1, sample_loaders)
   \<and> (\<exists>p. DatasetProviderRegistry_get (TaskRegistry sample_world1) ''cola'' = Inr p)
   \<and> DatasetProviderRegistry_get (Map.empty :: string \<rightharpoonup> task) ''cola'' = Inl NotFound"
proof -
  have h1: "TaskRegistry sample_world1 ''cola'' \<noteq> None"
    by (simp add: sample_world1_def)
  have h2: "TaskRegistry_add ''cola'' sample_kwargs sample_world0 = (Inr (), sample_world1)"
    by (simp add: TaskRegistry_add_def DatasetProviderRegistry_add_def sample_world0_def
        sample_world1_def sample_task_constructed)
  have h3: "TaskRegistry sample_world0 ''cola'' = None"
    by (simp add: sample_world0_def)
  have h4: "DatasetProviderRegistry_add ''cola'' (Task_init ''cola'' sample_kwargs)
        (\<lambda>provider. True) (Map.empty, no_loaders)
       = (Inr (), TaskRegistry sample_world1, sample_loaders)"
    by (simp add: DatasetProviderRegistry_add_def sample_world1_def sample_task_constructed)
  have h5: "(Map.empty :: string \<rightharpoonup> task) ''cola'' = None"
    by simp
  note dup = registry_add_then_get
    [where w = sample_world1 and n = "''cola''" and kwargs = sample_kwargs
       and REGISTRY = "TaskRegistry sample_world1"
       and provider_cls = "Task_init ''cola'' sample_kwargs"
       and is_type = "\<lambda>provider. True" and s = no_loaders]
  note ok = registry_add_then_get
    [where w = sample_world0 and n = "''cola''" and kwargs = sample_kwargs
       and w' = sample_world1 and REGISTRY = "Map.empty"
       and provider_cls = "Task_init ''cola'' sample_kwargs"
       and is_type = "\<lambda>provider. True" and s = no_loaders
       and REGISTRY' = "TaskRegistry sample_world1" and s' = sample_loaders]
  from dup ok h1 h2 h3 h4 h5 show ?thesis by blast
qed

section \<open>Properties of the memoized loaders\<close>

lemma call_memo:
  assumes "LazyTfdsLoader_call n d s = (a, s')"
  shows "MEMOIZED_INSTANCES s' (n, d) = Some a"
    and "MEMOIZED_INSTANCES s k = Some b \<Longrightarrow> MEMOIZED_INSTANCES s' k = Some b"
    and "memo_in_range s \<Longrightarrow> memo_in_range s'"
  using assms
  by (auto simp: LazyTfdsLoader_call_def LazyTfdsLoader_new_def LazyTfdsLoader_init_def Let_def
      memo_in_range_def less_Suc_eq split: option.splits if_splits)

lemma run_op_memo:
  shows "MEMOIZED_INSTANCES s k = Some b \<Longrightarrow> MEMOIZED_INSTANCES (run_op x s) k = Some b"
    and "memo_in_range s \<Longrightarrow> memo_in_range (run_op x s)"
proof -
  have c: "LazyTfdsLoader_call n d s
      = (fst (LazyTfdsLoader_call n d s), snd (LazyTfdsLoader_call n d s))" for n d
    by simp
  show "MEMOIZED_INSTANCES s k = Some b \<Longrightarrow> MEMOIZED_INSTANCES (run_op x s) k = Some b"
  proof (cases x)
    case (Construct n d)
    assume "MEMOIZED_INSTANCES s k = Some b"
    with call_memo(2)[OF c] show ?thesis
      by (simp add: Construct)
  next
    case (FillBuilder a v)
    assume "MEMOIZED_INSTANCES s k = Some b"
    then show ?thesis by (simp add: FillBuilder set_builder_def)
  qed
  show "memo_in_range s \<Longrightarrow> memo_in_range (run_op x s)"
  proof (cases x)
    case (Construct n d)
    assume "memo_in_range s"
    with call_memo(3)[OF c] show ?thesis
      by (simp add: Construct)
  next
    case (FillBuilder a v)
    assume "memo_in_range s"
    then show ?thesis by (simp add: FillBuilder set_builder_def memo_in_range_def)
  qed
qed

lemma run_ops_memo:
  shows "MEMOIZED_INSTANCES s k = Some b \<Longrightarrow> MEMOIZED_INSTANCES (run_ops xs s) k = Some b"
    and "memo_in_range s \<Longrightarrow> memo_in_range (run_ops xs s)"
  by (induction xs arbitrary: s) (auto simp: run_op_memo)

lemma call_memoized:
  "MEMOIZED_INSTANCES s (n, d) = Some a \<Longrightarrow> fst (LazyTfdsLoader_call n d s) = a"
  by (simp add: LazyTfdsLoader_call_def LazyTfdsLoader_new_def)

lemma builder_roundtrip:
  "a < length (objects s) \<Longrightarrow> get_builder a (set_builder a b s) = Inr (Some b)"
  by (simp add: get_builder_def set_builder_def)

text \<open>
  Memoization preserves identity. Starting from the empty memo table, after any
  operations, two constructions of a \<^verbatim>\<open>LazyTfdsLoader\<close> with the same
  \<open>(name, data_dir)\<close>, with any operations in between, return the same address, that
  is, the same instance; and a builder stored through either reference after the second
  construction is what the other reference reads.
\<close>

lemma LazyTfdsLoader_same_instance:
  assumes c1: "LazyTfdsLoader_call n d (run_ops before no_loaders) = (a1, s1)"
    and c2: "LazyTfdsLoader_call n d (run_ops between s1) = (a2, s2)"
  shows "a2 = a1 \<and> get_builder a2 (set_builder a1 b s2) = Inr (Some b)
       \<and> get_builder a1 (set_builder a2 b s2) = Inr (Some b)"
proof -
  have "memo_in_range no_loaders" by (simp add: memo_in_range_def no_loaders_def)
  then have "memo_in_range (run_ops before no_loaders)" by (rule run_ops_memo(2))
  then have r1: "memo_in_range s1" using call_memo(3)[OF c1] by blast
  then have "memo_in_range (run_ops between s1)" by (rule run_ops_memo(2))
  then have r2: "memo_in_range s2" using call_memo(3)[OF c2] by blast
  from call_memo(1)[OF c1] have "MEMOIZED_INSTANCES (run_ops between s1) (n, d) = Some a1"
    by (rule run_ops_memo(1))
  from call_memoized[OF this] c2 have eq: "a2 = a1" by simp
  from call_memo(1)[OF c2] r2 have "a2 < length (objects s2)"
    by (auto simp: memo_in_range_def)
  with eq show ?thesis by (simp add: builder_roundtrip)
qed

text \<open>
  A construction runs \<^verbatim>\<open>__init__\<close> on the instance that \<^verbatim>\<open>__new__\<close> returned, also
  when that instance was memoized, and \<^verbatim>\<open>__init__\<close> sets \<^verbatim>\<open>_builder\<close> to
  \<^verbatim>\<open>None\<close>: after every construction the instance has no builder.
\<close>

lemma construction_resets_builder:
  assumes c: "LazyTfdsLoader_call n d s = (a, s')" and r: "memo_in_range s"
  shows "get_builder a s' = Inr None"
proof -
  from call_memo(3)[OF c r] call_memo(1)[OF c] have "a < length (objects s')"
    by (auto simp: memo_in_range_def)
  moreover from c have "objects s' =
      (objects (snd (LazyTfdsLoader_new n d s)))[a :=
         \<lparr>loader_name = Some n, loader_data_dir = d, loader_builder = None\<rparr>]"
    by (auto simp: LazyTfdsLoader_call_def LazyTfdsLoader_init_def split: prod.splits)
  ultimately show ?thesis
    by (simp add: get_builder_def)
qed

text \<open>
  Claim C8 does not hold of the code. The first construction returns the instance at
  address 0, and a builder stored through that reference is read back. The second
  construction with the same key returns the same address, but it has run
  \<^verbatim>\<open>__init__\<close> on the shared instance: the state is the one right after the first
  construction, and the builder read through the second reference (and through the
  first) is \<^verbatim>\<open>None\<close>. The mutation made through the first reference is not visible
  through the second.
\<close>

theorem LazyTfdsLoader_second_construction_resets_builder:
  "LazyTfdsLoader_call ''glue/cola:1.0.0'' None no_loaders = (0, sample_loaders)
   \<and> get_builder 0 (set_builder 0 7 sample_loaders) = Inr (Some 7)
   \<and> LazyTfdsLoader_call ''glue/cola:1.0.0'' None (set_builder 0 7 sample_loaders)
       = (0, sample_loaders)
   \<and> get_builder 0 sample_loaders = Inr None"
  by (simp add: LazyTfdsLoader_call_def LazyTfdsLoader_new_def LazyTfdsLoader_init_def
      object_new_def set_builder_def get_builder_def no_loaders_def sample_loaders_def)

section \<open>Properties of Mixture construction\<close>

lemma card_set_map_one:
  "card (set (map f xs)) = 1 \<longleftrightarrow> xs \<noteq> [] \<and> (\<forall>a \<in> set xs. \<forall>b \<in> set xs. f a = f b)"
proof
  assume "card (set (map f xs)) = 1"
  then obtain y where y: "f ` set xs = {y}"
    by (auto simp: card_1_singleton_iff)
  from y have "xs \<noteq> []" by auto
  moreover from y have "\<forall>a \<in> set xs. f a = y" by blast
  ultimately show "xs \<noteq> [] \<and> (\<forall>a \<in> set xs. \<forall>b \<in> set xs. f a = f b)" by simp
next
  assume a: "xs \<noteq> [] \<and> (\<forall>a \<in> set xs. \<forall>b \<in> set xs. f a = f b)"
  then obtain x where x: "x \<in> set xs" by (cases xs) auto
  from a x have "f ` set xs \<subseteq> {f x}" by blast
  moreover from x have "f x \<in> f ` set xs" by blast
  ultimately have "f ` set xs = {f x}" by blast
  then have "card (f ` set xs) = 1" by simp
  then show "card (set (map f xs)) = 1" by simp
qed

lemma Mixture_init_loop_tasks:
  "Mixture_init_loop REGISTRY dr ts m0 = Inr m \<Longrightarrow>
     \<exists>new. tasks m = tasks m0 @ new \<and>
       list_all2 (\<lambda>a t. case a of TaskName n \<Rightarrow> REGISTRY n = Some t
                        | TaskWithRate n r \<Rightarrow> REGISTRY n = Some t) ts new"
proof (induction ts arbitrary: m0)
  case Nil
  then show ?case by simp
next
  case (Cons a ts)
  from Cons.prems obtain n r tk where
    tk: "REGISTRY n = Some tk"
    and a: "a = TaskName n \<or> a = TaskWithRate n r"
    and rest: "Mixture_init_loop REGISTRY dr ts
        (m0\<lparr>tasks := tasks m0 @ [tk], task_to_rate := (task_to_rate m0)(n \<mapsto> r)\<rparr>) = Inr m"
    by (auto simp: DatasetProviderRegistry_get_def
        split: task_arg.splits option.splits sum.splits)
  from Cons.IH[OF rest] obtain new where
    "tasks m = (tasks m0 @ [tk]) @ new"
    "list_all2 (\<lambda>a t. case a of TaskName n \<Rightarrow> REGISTRY n = Some t
                        | TaskWithRate n r \<Rightarrow> REGISTRY n = Some t) ts new"
    by auto
  with tk a have "tasks m = tasks m0 @ (tk # new) \<and>
       list_all2 (\<lambda>a t. case a of TaskName n \<Rightarrow> REGISTRY n = Some t
                        | TaskWithRate n r \<Rightarrow> REGISTRY n = Some t) (a # ts) (tk # new)"
    by auto
  then show ?case by blast
qed

lemma Mixture_init_Inr:
  assumes "Mixture_init REGISTRY ts dr = Inr m"
  shows "Mixture_init_loop REGISTRY dr ts \<lparr>tasks = [], task_to_rate = Map.empty\<rparr> = Inr m"
    and "card (set (map output_features (tasks m))) = 1"
    and "card (set (map sentencepiece_model_path (tasks m))) = 1"
  using assms
  by (auto simp: Mixture_init_def split: sum.splits if_splits)

lemma sorted_set_cong: "set xs = set ys \<Longrightarrow> sorted_set xs = sorted_set ys"
  by (simp add: sorted_set_def)

lemma or_default_set_cong: "set xs = set ys \<Longrightarrow> set (or_default (Some xs)) = set (or_default (Some ys))"
  by (auto simp: or_default_def)

lemma sample_mixture_constructed:
  "Mixture_init sample_registry [TaskName ''cola'', TaskWithRate ''sst2'' (RateNumber 2)]
     (Some (RateNumber 1)) = Inr sample_mixture"
  by (simp add: Mixture_init_def DatasetProviderRegistry_get_def sample_registry_def
      sample_mixture_def sample_task_def)

text \<open>
  Claim C4. Let the loop of the constructor have resolved every listed name to its
  registered Task (each with a rate); the member Tasks are these, in order. If two
  members differ in their output features or in their sentencepiece model path, the
  construction fails with \<open>IncompatibleMixtureError\<close>. If there is at least one member
  and all members agree on both, the construction succeeds with these members. The
  comparison does not depend on the order in which a Task's output features were
  given: Tasks constructed from lists with the same elements store the same list.
\<close>

theorem Mixture_init_compatibility:
  "(Mixture_init_loop REGISTRY default_rate ts \<lparr>tasks = [], task_to_rate = Map.empty\<rparr> = Inr m \<longrightarrow>
      list_all2 (\<lambda>a t. case a of TaskName n \<Rightarrow> REGISTRY n = Some t
                        | TaskWithRate n r \<Rightarrow> REGISTRY n = Some t) ts (tasks m)
      \<and> ((\<exists>a \<in> set (tasks m). \<exists>b \<in> set (tasks m).
             output_features a \<noteq> output_features b
             \<or> sentencepiece_model_path a \<noteq> sentencepiece_model_path b)
           \<longrightarrow> Mixture_init REGISTRY ts default_rate = Inl IncompatibleMixtureError)
      \<and> (ts \<noteq> [] \<and> (\<forall>a \<in> set (tasks m). \<forall>b \<in> set (tasks m).
             output_features a = output_features b
             \<and> sentencepiece_model_path a = sentencepiece_model_path b)
           \<longrightarrow> Mixture_init REGISTRY ts default_rate = Inr m))
   \<and> (Task_init n1 kw1 s1 = (Inr t1, s1') \<and> Task_init n2 kw2 s2 = (Inr t2, s2')
      \<and> arg_output_features kw1 = Some xs \<and> arg_output_features kw2 = Some ys
      \<and> set xs = set ys \<longrightarrow> output_features t1 = output_features t2)"
proof (intro conjI impI)
  let ?m0 = "\<lparr>tasks = [], task_to_rate = Map.empty\<rparr>"
  assume loop: "Mixture_init_loop REGISTRY default_rate ts ?m0 = Inr m"
  from Mixture_init_loop_tasks[OF loop]
  show "list_all2 (\<lambda>a t. case a of TaskName n \<Rightarrow> REGISTRY n = Some t
                        | TaskWithRate n r \<Rightarrow> REGISTRY n = Some t) ts (tasks m)"
    by simp
next
  let ?m0 = "\<lparr>tasks = [], task_to_rate = Map.empty\<rparr>"
  assume loop: "Mixture_init_loop REGISTRY default_rate ts ?m0 = Inr m"
  assume "\<exists>a \<in> set (tasks m). \<exists>b \<in> set (tasks m).
             output_features a \<noteq> output_features b
             \<or> sentencepiece_model_path a \<noteq> sentencepiece_model_path b"
  then have "card (set (map output_features (tasks m))) \<noteq> 1
        \<or> card (set (map sentencepiece_model_path (tasks m))) \<noteq> 1"
    unfolding card_set_map_one by blast
  then show "Mixture_init REGISTRY ts default_rate = Inl IncompatibleMixtureError"
    unfolding Mixture_init_def loop by auto
next
  let ?m0 = "\<lparr>tasks = [], task_to_rate = Map.empty\<rparr>"
  assume loop: "Mixture_init_loop REGISTRY default_rate ts ?m0 = Inr m"
  assume a: "ts \<noteq> [] \<and> (\<forall>a \<in> set (tasks m). \<forall>b \<in> set (tasks m).
             output_features a = output_features b
             \<and> sentencepiece_model_path a = sentencepiece_model_path b)"
  from Mixture_init_loop_tasks[OF loop] have "length (tasks m) = length ts"
    by (auto dest: list_all2_lengthD)
  with a have ne: "tasks m \<noteq> []" by auto
  from ne a have "card (set (map output_features (tasks m))) = 1"
    unfolding card_set_map_one by blast
  moreover from ne a have "card (set (map sentencepiece_model_path (tasks m))) = 1"
    unfolding card_set_map_one by blast
  ultimately show "Mixture_init REGISTRY ts default_rate = Inr m"
    unfolding Mixture_init_def loop by simp
next
  assume a: "Task_init n1 kw1 s1 = (Inr t1, s1') \<and> Task_init n2 kw2 s2 = (Inr t2, s2')
      \<and> arg_output_features kw1 = Some xs \<and> arg_output_features kw2 = Some ys
      \<and> set xs = set ys"
  from a have i1: "Task_init n1 kw1 s1 = (Inr t1, s1')"
    and i2: "Task_init n2 kw2 s2 = (Inr t2, s2')"
    and x: "arg_output_features kw1 = Some xs" and y: "arg_output_features kw2 = Some ys"
    and xy: "set xs = set ys"
    by simp_all
  from Task_init_Inr(2)[OF i1] x have "output_features t1 = sorted_set (or_default (Some xs))"
    by simp
  moreover from Task_init_Inr(2)[OF i2] y
  have "output_features t2 = sorted_set (or_default (Some ys))"
    by simp
  moreover from xy have "set (or_default (Some xs)) = set (or_default (Some ys))"
    by (rule or_default_set_cong)
  ultimately show "output_features t1 = output_features t2"
    using sorted_set_cong [of "or_default (Some xs)" "or_default (Some ys)"] by simp
qed

theorem Mixture_init_compatibility_witness:
  "Mixture_init_loop sample_registry (Some (RateNumber 1))
       [TaskName ''cola'', TaskWithRate ''sst2'' (RateNumber 2)]
       \<lparr>tasks = [], task_to_rate = Map.empty\<rparr> = Inr sample_mixture
   \<and> Mixture_init sample_registry [TaskName ''cola'', TaskWithRate ''sst2'' (RateNumber 2)]
       (Some (RateNumber 1)) = Inr sample_mixture
   \<and> Mixture_init_loop sample_registry (Some (RateNumber 1))
       [TaskName ''cola'', TaskName ''lm'']
       \<lparr>tasks = [], task_to_rate = Map.empty\<rparr> = Inr sample_mixture_lm
   \<and> Mixture_init sample_registry [TaskName ''cola'', TaskName ''lm'']
       (Some (RateNumber 1)) = Inl IncompatibleMixtureError
   \<and> Task_init ''cola'' (sample_kwargs\<lparr>arg_output_features := Some [''targets'', ''inputs'']\<rparr>)
        no_loaders = (Inr (sample_task ''cola''), sample_loaders)
   \<and> Task_init ''sst2''
        (sample_kwargs\<lparr>arg_output_features := Some [''inputs'', ''targets'', ''inputs'']\<rparr>)
        no_loaders = (Inr (sample_task ''sst2''), sample_loaders)
   \<and> output_features (sample_task ''cola'') = output_features (sample_task ''sst2'')"
proof -
  let ?m0 = "\<lparr>tasks = [], task_to_rate = Map.empty\<rparr> :: mixture"
  have h1: "Mixture_init_loop sample_registry (Some (RateNumber 1))
       [TaskName ''cola'', TaskWithRate ''sst2'' (RateNumber 2)] ?m0 = Inr sample_mixture"
    by (simp add: DatasetProviderRegistry_get_def sample_registry_def sample_mixture_def)
  have h2: "[TaskName ''cola'', TaskWithRate ''sst2'' (RateNumber 2)] \<noteq> []
      \<and> (\<forall>a \<in> set (tasks sample_mixture). \<forall>b \<in> set (tasks sample_mixture).
             output_features a = output_features b
             \<and> sentencepiece_model_path a = sentencepiece_model_path b)"
    by (simp add: sample_mixture_def sample_task_def)
  have h3: "Mixture_init_loop sample_registry (Some (RateNumber 1))
       [TaskName ''cola'', TaskName ''lm''] ?m0 = Inr sample_mixture_lm"
    by (simp add: DatasetProviderRegistry_get_def sample_registry_def sample_mixture_lm_def)
  have h4: "\<exists>a \<in> set (tasks sample_mixture_lm). \<exists>b \<in> set (tasks sample_mixture_lm).
             output_features a \<noteq> output_features b
             \<or> sentencepiece_model_path a \<noteq> sentencepiece_model_path b"
    unfolding sample_mixture_lm_def
    by (rule bexI [where x = "sample_task ''cola''"],
        rule bexI [where x = "(sample_task ''lm'')\<lparr>output_features := [''targets'']\<rparr>"])
      (simp_all add: sample_task_def)
  have h5: "Task_init ''cola''
        (sample_kwargs\<lparr>arg_output_features := Some [''targets'', ''inputs'']\<rparr>)
        no_loaders = (Inr (sample_task ''cola''), sample_loaders)"
    by (simp add: Task_init_def sample_kwargs_def no_loaders_def sample_task_def
        sample_loaders_def VALID_TASK_NAME_REGEX_match_def name_class_def is_word_def
        is_digit_def at_dollar_def LazyTfdsLoader_call_def LazyTfdsLoader_new_def
        LazyTfdsLoader_init_def object_new_def sorted_set_code or_default_def)
  have h6: "Task_init ''sst2''
        (sample_kwargs\<lparr>arg_output_features := Some [''inputs'', ''targets'', ''inputs'']\<rparr>)
        no_loaders = (Inr (sample_task ''sst2''), sample_loaders)"
    by (simp add: Task_init_def sample_kwargs_def no_loaders_def sample_task_def
        sample_loaders_def VALID_TASK_NAME_REGEX_match_def name_class_def is_word_def
        is_digit_def at_dollar_def LazyTfdsLoader_call_def LazyTfdsLoader_new_def
        LazyTfdsLoader_init_def object_new_def sorted_set_code or_default_def)
  have h7: "arg_output_features
        (sample_kwargs\<lparr>arg_output_features := Some [''targets'', ''inputs'']\<rparr>)
        = Some [''targets'', ''inputs'']
      \<and> arg_output_features
        (sample_kwargs\<lparr>arg_output_features := Some [''inputs'', ''targets'', ''inputs'']\<rparr>)
        = Some [''inputs'', ''targets'', ''inputs'']
      \<and> set [''targets'', ''inputs''] = set [''inputs'', ''targets'', ''inputs'']"
    by auto
  note good = Mixture_init_compatibility
    [where REGISTRY = sample_registry and default_rate = "Some (RateNumber 1)"
       and ts = "[TaskName ''cola'', TaskWithRate ''sst2'' (RateNumber 2)]"
       and m = sample_mixture
       and ?n1.0 = "''cola''" and ?n2.0 = "''sst2''"
       and ?kw1.0 = "sample_kwargs\<lparr>arg_output_features := Some [''targets'', ''inputs'']\<rparr>"
       and ?kw2.0 = "sample_kwargs\<lparr>arg_output_features :=
                       Some [''inputs'', ''targets'', ''inputs'']\<rparr>"
       and ?s1.0 = no_loaders and ?s2.0 = no_loaders
       and ?t1.0 = "sample_task ''cola''" and ?t2.0 = "sample_task ''sst2''"
       and s1' = sample_loaders and s2' = sample_loaders
       and xs = "[''targets'', ''inputs'']" and ys = "[''inputs'', ''targets'', ''inputs'']"]
  note bad = Mixture_init_compatibility
    [where REGISTRY = sample_registry and default_rate = "Some (RateNumber 1)"
       and ts = "[TaskName ''cola'', TaskName ''lm'']" and m = sample_mixture_lm]
  from good h1 h2 have g: "Mixture_init sample_registry
      [TaskName ''cola'', TaskWithRate ''sst2'' (RateNumber 2)] (Some (RateNumber 1))
      = Inr sample_mixture"
    by blast
  from bad h3 h4 have b: "Mixture_init sample_registry [TaskName ''cola'', TaskName ''lm'']
      (Some (RateNumber 1)) = Inl IncompatibleMixtureError"
    by blast
  from good h5 h6 h7
  have o: "output_features (sample_task ''cola'') = output_features (sample_task ''sst2'')"
    by blast
  from h1 g h3 b h5 h6 o show ?thesis by blast
qed

text \<open>
  Claim C10. Constructing a Mixture from an empty task list fails. A Mixture that was
  constructed therefore came from a non-empty list and has at least one member, and its
  \<^verbatim>\<open>output_features\<close> and \<^verbatim>\<open>sentencepiece_model_path\<close> accessors return those of
  its first member.
\<close>

theorem Mixture_init_needs_a_task:
  "Mixture_init REGISTRY [] default_rate = Inl IncompatibleMixtureError
   \<and> (Mixture_init REGISTRY ts default_rate = Inr m \<longrightarrow>
        ts \<noteq> [] \<and> tasks m \<noteq> []
        \<and> Mixture_output_features m = Inr (output_features (hd (tasks m)))
        \<and> Mixture_sentencepiece_model_path m = Inr (sentencepiece_model_path (hd (tasks m))))"
proof (intro conjI impI)
  show "Mixture_init REGISTRY [] default_rate = Inl IncompatibleMixtureError"
    by (simp add: Mixture_init_def)
next
  assume a: "Mixture_init REGISTRY ts default_rate = Inr m"
  then show "ts \<noteq> []" by (auto simp: Mixture_init_def)
  from Mixture_init_Inr(2)[OF a] show ne: "tasks m \<noteq> []"
    unfolding card_set_map_one by blast
  from ne show "Mixture_output_features m = Inr (output_features (hd (tasks m)))"
    by (cases "tasks m") (simp_all add: Mixture_output_features_def)
  from ne show "Mixture_sentencepiece_model_path m = Inr (sentencepiece_model_path (hd (tasks m)))"
    by (cases "tasks m") (simp_all add: Mixture_sentencepiece_model_path_def)
qed

theorem Mixture_init_needs_a_task_witness:
  "Mixture_init sample_registry [TaskName ''cola'', TaskWithRate ''sst2'' (RateNumber 2)]
       (Some (RateNumber 1)) = Inr sample_mixture
   \<and> tasks sample_mixture \<noteq> []
   \<and> Mixture_output_features sample_mixture
       = Inr (output_features (hd (tasks sample_mixture)))
   \<and> Mixture_sentencepiece_model_path sample_mixture
       = Inr (sentencepiece_model_path (hd (tasks sample_mixture)))"
proof -
  note h = sample_mixture_constructed
  from Mixture_init_needs_a_task
    [where ts = "[TaskName ''cola'', TaskWithRate ''sst2'' (RateNumber 2)]"
       and REGISTRY = sample_registry and default_rate = "Some (RateNumber 1)"
       and m = sample_mixture] h
  show ?thesis by blast
qed

section \<open>Properties of the rate functions\<close>

lemma to_float_in_range: "\<bar>r\<bar> < FLOAT_OVERFLOW \<Longrightarrow> to_float r = Finite r"
  by (auto simp: to_float_def)



lemma finite_pow_overflow:
  "0 < v \<Longrightarrow> FLOAT_OVERFLOW \<le> v powr w \<Longrightarrow> finite_pow v w = Inl OverflowError"
  by (simp add: finite_pow_def)


lemma power_overflows:
  assumes "4 \<le> x" and "512 \<le> n"
  shows "FLOAT_OVERFLOW \<le> x ^ n"
proof -
  have "FLOAT_OVERFLOW \<le> 4 ^ 512" by (simp add: FLOAT_OVERFLOW_def)
  also have "(4 :: real) ^ 512 \<le> 4 ^ n"
    by (rule power_increasing) (use assms(2) in simp_all)
  also have "4 ^ n \<le> x ^ n"
    by (rule power_mono) (use assms(1) in simp_all)
  finally show ?thesis .
qed




text \<open>
  Two outcomes of the power that are not a real number: with 10000 examples and a
  temperature of \<open>1/1000\<close> the power \<open>10000 ** 1000\<close> overflows and
  \<^verbatim>\<open>OverflowError\<close> is raised; with a negative scale the base is negative and the
  result of \<open>(-8) ** (1/3)\<close> is complex.
\<close>

lemma rate_num_examples_overflow:
  "rate_num_examples [''examples'' \<mapsto> 10000] None (1 / 1000) 1 = Inl OverflowError"
proof -
  have "(10000 :: real) powr real (1000 :: nat) = 10000 ^ (1000 :: nat)"
    by (rule powr_realpow) simp
  moreover have "FLOAT_OVERFLOW \<le> (10000 :: real) ^ (1000 :: nat)"
    by (rule power_overflows) simp_all
  ultimately have "FLOAT_OVERFLOW \<le> (10000 :: real) powr real (1000 :: nat)"
    by (simp only:)
  moreover have "real (1000 :: nat) = 1000" by simp
  ultimately have big: "FLOAT_OVERFLOW \<le> (10000 :: real) powr 1000"
    by (simp only:)
  have "finite_pow 10000 1000 = Inl OverflowError"
  proof (rule finite_pow_overflow)
    show "(0 :: real) < 10000" by simp
    show "FLOAT_OVERFLOW \<le> (10000 :: real) powr 1000" by (fact big)
  qed
  moreover have "to_float 1000 = Finite 1000"
    by (rule to_float_in_range) (simp add: FLOAT_OVERFLOW_def)
  moreover have "py_int_to_float 10000 = Inr 10000"
    by (simp add: py_int_to_float_def FLOAT_OVERFLOW_def)
  moreover have "py_float_mul 10000 1 = Finite 10000"
    by (simp add: py_float_mul_def to_float_def FLOAT_OVERFLOW_def)
  ultimately show ?thesis
    by (simp add: rate_num_examples_def py_float_div_def)
qed

lemma rate_num_examples_complex:
  "rate_num_examples [''examples'' \<mapsto> 8] None 3 (- 1)
     = Inr (ComplexValue (Complex (8 powr (1 / 3) * cos (pi * (1 / 3)))
                                  (8 powr (1 / 3) * sin (pi * (1 / 3)))))"
proof -
  have "(8 :: real) powr (1 / 3) \<le> 8 powr 1"
    by (rule powr_mono) simp_all
  then have "(8 :: real) powr (1 / 3) < FLOAT_OVERFLOW"
    by (simp add: FLOAT_OVERFLOW_def)
  moreover have "(1 / 3 :: real) \<noteq> of_int \<lfloor>1 / 3 :: real\<rfloor>"
    by simp
  ultimately have "finite_pow (- 8) (1 / 3)
      = Inr (ComplexValue (Complex (8 powr (1 / 3) * cos (pi * (1 / 3)))
                                   (8 powr (1 / 3) * sin (pi * (1 / 3)))))"
    by (simp add: finite_pow_def Let_def)
  moreover have "to_float (1 / 3) = Finite (1 / 3)"
    by (rule to_float_in_range) (simp add: FLOAT_OVERFLOW_def)
  moreover have "py_int_to_float 8 = Inr 8"
    by (simp add: py_int_to_float_def FLOAT_OVERFLOW_def)
  moreover have "py_float_mul 8 (- 1) = Finite (- 8)"
    by (simp add: py_float_mul_def to_float_def FLOAT_OVERFLOW_def)
  ultimately show ?thesis
    by (simp add: rate_num_examples_def py_float_div_def)
qed

end
